theory Spec2Isabelle
  imports Main
begin

section \<open>Scope\<close>

text \<open>
  The repository converts the HEIC files of a directory to JPEG with ImageMagick. Its
  tool is the Node.js script \<^verbatim>\<open>convert_heic_to_jpeg.js\<close>, the one the README
  documents; a batch file and a Processing sketch restate the same loop. This theory
  embeds the script: \<^verbatim>\<open>main\<close> as a function from the command line arguments and the
  machine it runs on to the way the process ends, the machine afterwards and the trace of
  everything the script printed, started and asked of the file system. ImageMagick and
  the file system are parameters: what they answer is not part of the script.
\<close>

section \<open>JavaScript strings\<close>

text \<open>
  Strings are lists of characters. The three string tests of the script compare against
  the ASCII literals \<^verbatim>\<open>'delete'\<close>, \<^verbatim>\<open>'.heic'\<close> and \<^verbatim>\<open>'heic'\<close>. Outside
  \<^verbatim>\<open>A-Z\<close> only two characters lower-case to something with an ASCII letter in it:
  the Kelvin sign gives \<^verbatim>\<open>k\<close>, which is in none of the literals, and the dotted
  capital I gives \<^verbatim>\<open>i\<close> followed by a combining dot, never by the \<^verbatim>\<open>c\<close> of
  \<^verbatim>\<open>heic\<close>. So lower-casing the ASCII capitals and leaving every other character
  alone decides the three tests as \<^verbatim>\<open>String.prototype.toLowerCase\<close> does.
\<close>

definition lower_char :: "char \<Rightarrow> char" where
  "lower_char c =
     (let n = (of_char c :: nat) in if 65 \<le> n \<and> n \<le> 90 then char_of (n + 32) else c)"

definition toLowerCase :: "string \<Rightarrow> string" where
  "toLowerCase s = map lower_char s"

text \<open>\<^verbatim>\<open>s.endsWith(t)\<close>\<close>

definition endsWith :: "string \<Rightarrow> string \<Rightarrow> bool" where
  "endsWith s t = (length t \<le> length s \<and> drop (length s - length t) s = t)"

text \<open>\<^verbatim>\<open>s.includes(t)\<close>: \<open>t\<close> occurs in \<open>s\<close> at some position.\<close>

fun includes_str :: "string \<Rightarrow> string \<Rightarrow> bool" where
  "includes_str [] t = (t = [])"
| "includes_str (c # s) t = (take (length t) (c # s) = t \<or> includes_str s t)"

text \<open>Template literal \<^verbatim>\<open>${n}\<close> of a non-negative integer: its decimal digits.\<close>

fun string_of_nat :: "nat \<Rightarrow> string" where
  "string_of_nat n =
     (if n < 10 then [char_of (48 + n)]
      else string_of_nat (n div 10) @ [char_of (48 + n mod 10)])"

declare string_of_nat.simps [simp del]

section \<open>Console output\<close>

text \<open>The ANSI colour codes of the table \<^verbatim>\<open>colors\<close> (lines 42-49).\<close>

definition esc :: char where
  "esc = char_of (27 :: nat)"

definition green :: string where "green = esc # ''[32m''"
definition red :: string where "red = esc # ''[31m''"
definition yellow :: string where "yellow = esc # ''[33m''"
definition cyan :: string where "cyan = esc # ''[36m''"
definition reset :: string where "reset = esc # ''[0m''"
definition bright :: string where "bright = esc # ''[1m''"

section \<open>The operating system as seen by the script\<close>

text \<open>
  Everything the script does to the outside is one of these events, recorded in the
  order in which \<^verbatim>\<open>main\<close> performs them: a line written by \<^verbatim>\<open>console.log\<close>,
  a command started by \<^verbatim>\<open>execSync\<close>, and the calls \<^verbatim>\<open>fs.existsSync\<close>,
  \<^verbatim>\<open>fs.lstatSync\<close>, \<^verbatim>\<open>fs.readdirSync\<close> and \<^verbatim>\<open>fs.unlinkSync\<close>.
\<close>

datatype event =
    Print string
  | Spawn string
  | Exists string
  | Lstat string
  | Readdir string
  | Unlink string

text \<open>A JavaScript call either returns a value or throws an error with a message.\<close>

datatype 'a js_result = Ok 'a | Throw string

text \<open>
  How a child process ended: it ran and exited with a status, having written its standard
  output and standard error, or it could not be run to an exit at all (the shell could not
  be spawned, the child was killed).
\<close>

datatype proc_outcome = Exited int string string | SpawnError string

text \<open>What \<^verbatim>\<open>lstat\<close> says an entry is; a symbolic link is \<open>IsOther\<close>.\<close>

datatype stat_kind = IsFile | IsDirectory | IsOther

text \<open>
  The platform: the working directory, the two path functions of Node whose result
  depends on it, and the behaviour of the file system and of the programs on the
  \<^verbatim>\<open>PATH\<close>, over a state \<open>'w\<close> of the machine that running a command or removing a
  file may change.
\<close>

record 'w sys =
  sys_cwd :: string
  sys_resolve :: "string \<Rightarrow> string"
  sys_join :: "string \<Rightarrow> string \<Rightarrow> string"
  sys_run :: "string \<Rightarrow> 'w \<Rightarrow> proc_outcome \<times> 'w"
  sys_exists :: "string \<Rightarrow> 'w \<Rightarrow> bool"
  sys_lstat :: "string \<Rightarrow> 'w \<Rightarrow> stat_kind js_result"
  sys_readdir :: "string \<Rightarrow> 'w \<Rightarrow> string list js_result"
  sys_unlink :: "string \<Rightarrow> 'w \<Rightarrow> unit js_result \<times> 'w"

text \<open>
  \<^verbatim>\<open>child_process.execSync(cmd)\<close> with piped output: it returns the standard output
  when the child exited with status zero and throws otherwise; the message of the error
  for a non-zero status is \<^verbatim>\<open>Command failed: \<close> followed by the command and, when the
  standard error is not empty, a newline and the standard error.
\<close>

definition execSync_result :: "string \<Rightarrow> proc_outcome \<Rightarrow> string js_result" where
  "execSync_result cmd r =
     (case r of
        SpawnError m \<Rightarrow> Throw m
      | Exited st out err \<Rightarrow>
          if st = 0 then Ok out
          else Throw (''Command failed: '' @ cmd @ (if err = [] then [] else char_of (10 :: nat) # err)))"

definition execSync :: "'w sys \<Rightarrow> string \<Rightarrow> 'w \<Rightarrow> string js_result \<times> 'w \<times> event list" where
  "execSync S cmd w =
     (case sys_run S cmd w of (r, w') \<Rightarrow> (execSync_result cmd r, w', [Spawn cmd]))"

text \<open>\<^verbatim>\<open>colorLog(message, color)\<close> (lines 52-54) and \<^verbatim>\<open>console.log(message)\<close>.\<close>

definition colorLog :: "string \<Rightarrow> string \<Rightarrow> event" where
  "colorLog message color = Print (color @ message @ reset)"

definition console_log :: "string \<Rightarrow> event" where
  "console_log message = Print message"

section \<open>Paths\<close>

text \<open>
  \<^verbatim>\<open>path.parse(p).name\<close> of Node on POSIX: the last component of the path (trailing
  slashes dropped) without its extension. The extension starts at the last dot of the
  component, unless the component has no dot, starts with its only dot, or is \<^verbatim>\<open>..\<close>.
  On Windows the result is the same for every name a directory entry can have.
\<close>

definition path_base :: "string \<Rightarrow> string" where
  "path_base p =
     rev (takeWhile (\<lambda>c. c \<noteq> CHR ''/'') (dropWhile (\<lambda>c. c = CHR ''/'') (rev p)))"

definition path_parse_name :: "string \<Rightarrow> string" where
  "path_parse_name p =
     (let b = path_base p;
          e = takeWhile (\<lambda>c. c \<noteq> CHR ''.'') (rev b)
      in if CHR ''.'' \<notin> set b \<or> Suc (length e) = length b \<or> b = ''..'' then b
         else take (length b - Suc (length e)) b)"

section \<open>Converting one file\<close>

text \<open>The three command lines of lines 173, 179 and 185, in this order.\<close>

definition cmd_direct :: "string \<Rightarrow> string \<Rightarrow> string" where
  "cmd_direct inputPath outputPath =
     ''magick \"'' @ inputPath @ ''\" -quality 90 \"'' @ outputPath @ ''\"''"

definition cmd_format :: "string \<Rightarrow> string \<Rightarrow> string" where
  "cmd_format inputPath outputPath =
     ''magick heic:\"'' @ inputPath @ ''\" -quality 90 \"'' @ outputPath @ ''\"''"

definition cmd_orient :: "string \<Rightarrow> string \<Rightarrow> string" where
  "cmd_orient inputPath outputPath =
     ''magick \"'' @ inputPath @ ''\" -auto-orient -quality 90 \"'' @ outputPath @ ''\"''"

text \<open>
  Lines 171-191, the nested \<^verbatim>\<open>try\<close> blocks: each \<^verbatim>\<open>catch\<close> starts the next
  command, and the innermost rethrows the third error. \<open>Ok ()\<close> is
  \<^verbatim>\<open>conversionSuccess = true\<close>.
\<close>

definition try_strategies ::
  "'w sys \<Rightarrow> string \<Rightarrow> string \<Rightarrow> 'w \<Rightarrow> unit js_result \<times> 'w \<times> event list" where
  "try_strategies S inputPath outputPath w =
     (case execSync S (cmd_direct inputPath outputPath) w of
        (Ok _, w1, t1) \<Rightarrow> (Ok (), w1, t1)
      | (Throw error1, w1, t1) \<Rightarrow>
          (case execSync S (cmd_format inputPath outputPath) w1 of
             (Ok _, w2, t2) \<Rightarrow>
               (Ok (), w2, t1 @ [console_log ''  Retrying with format specification...''] @ t2)
           | (Throw error2, w2, t2) \<Rightarrow>
               (case execSync S (cmd_orient inputPath outputPath) w2 of
                  (Ok _, w3, t3) \<Rightarrow>
                    (Ok (), w3,
                     t1 @ [console_log ''  Retrying with format specification...''] @ t2
                        @ [console_log ''  Retrying with alternative options...''] @ t3)
                | (Throw error3, w3, t3) \<Rightarrow>
                    (Throw error3, w3,
                     t1 @ [console_log ''  Retrying with format specification...''] @ t2
                        @ [console_log ''  Retrying with alternative options...''] @ t3))))"

text \<open>
  Lines 198-206: \<^verbatim>\<open>fs.unlinkSync(inputPath)\<close> inside its own \<^verbatim>\<open>try\<close>; the
  \<^verbatim>\<open>catch\<close> prints a warning and goes on.
\<close>

definition delete_original :: "'w sys \<Rightarrow> string \<Rightarrow> string \<Rightarrow> 'w \<Rightarrow> 'w \<times> event list" where
  "delete_original S inputPath fileName w =
     (case sys_unlink S inputPath w of
        (Ok _, w') \<Rightarrow>
          (w', [Unlink inputPath,
                colorLog (''  DELETED: Removed original file '' @ fileName) yellow])
      | (Throw m, w') \<Rightarrow>
          (w', [Unlink inputPath,
                colorLog (''  WARNING: Could not delete original file '' @ fileName) yellow,
                colorLog (''  Details: '' @ m) yellow]))"

text \<open>
  The two counters \<^verbatim>\<open>converted\<close> and \<^verbatim>\<open>failed\<close> of lines 157-158. A
  JavaScript number counts exactly up to \<open>2\<^sup>5\<^sup>3\<close>, far more than a directory has
  entries, so they are natural numbers here.
\<close>

record counters =
  converted :: nat
  failed :: nat

text \<open>The body of the \<^verbatim>\<open>for\<close> loop, lines 161-214, for one \<^verbatim>\<open>fileName\<close>.\<close>

definition process_file ::
  "'w sys \<Rightarrow> string \<Rightarrow> bool \<Rightarrow> string \<Rightarrow> counters \<Rightarrow> 'w \<Rightarrow> counters \<times> 'w \<times> event list" where
  "process_file S targetFolder deleteOriginals fileName cnt w =
     (let inputPath = sys_join S targetFolder fileName;
          baseName = path_parse_name fileName;
          outputPath = sys_join S targetFolder (baseName @ ''.jpg'');
          t0 = [colorLog (''Converting: '' @ fileName) cyan]
      in case try_strategies S inputPath outputPath w of
           (Ok _, w1, t1) \<Rightarrow>
             (let t2 = [colorLog (''  SUCCESS: Created '' @ baseName @ ''.jpg'') green];
                  cnt1 = cnt\<lparr>converted := converted cnt + 1\<rparr>
              in if deleteOriginals
                 then (case delete_original S inputPath fileName w1 of
                         (w2, t3) \<Rightarrow> (cnt1, w2, t0 @ t1 @ t2 @ t3 @ [console_log '''']))
                 else (cnt1, w1, t0 @ t1 @ t2 @ [console_log '''']))
         | (Throw m, w1, t1) \<Rightarrow>
             (cnt\<lparr>failed := failed cnt + 1\<rparr>, w1,
              t0 @ t1 @ [colorLog (''  ERROR: Failed to convert '' @ fileName) red,
                         colorLog (''  Details: '' @ m) red,
                         console_log '''']))"

text \<open>The loop of line 160 over \<^verbatim>\<open>heicFiles\<close>, in the order of the array.\<close>

fun convert_all ::
  "'w sys \<Rightarrow> string \<Rightarrow> bool \<Rightarrow> string list \<Rightarrow> counters \<Rightarrow> 'w \<Rightarrow> counters \<times> 'w \<times> event list" where
  "convert_all S targetFolder deleteOriginals [] cnt w = (cnt, w, [])"
| "convert_all S targetFolder deleteOriginals (fileName # rest) cnt w =
     (case process_file S targetFolder deleteOriginals fileName cnt w of
        (cnt1, w1, t1) \<Rightarrow>
          (case convert_all S targetFolder deleteOriginals rest cnt1 w1 of
             (cnt2, w2, t2) \<Rightarrow> (cnt2, w2, t1 @ t2)))"

section \<open>The run\<close>

text \<open>
  Lines 62-95. The result is \<^verbatim>\<open>targetFolder\<close>, \<^verbatim>\<open>deleteOriginals\<close> and the lines
  printed. With three arguments or more no branch is taken.
\<close>

definition parse_args :: "'w sys \<Rightarrow> string list \<Rightarrow> string \<times> bool \<times> event list" where
  "parse_args S args =
     (let targetFolder = sys_cwd S in
      if length args = 0 then
        (targetFolder, False,
         [colorLog (''Using current directory: '' @ targetFolder) cyan,
          colorLog ''Preserve mode: Original HEIC files will be kept'' cyan])
      else if length args = 1 then
        (if toLowerCase (args ! 0) = ''delete'' then
           (targetFolder, True,
            [colorLog (''Using current directory: '' @ targetFolder) cyan,
             colorLog ''Delete mode: Original HEIC files will be deleted after successful conversion'' yellow])
         else
           (let targetFolder = sys_resolve S (args ! 0) in
            (targetFolder, False,
             [colorLog (''Using specified directory: '' @ targetFolder) cyan,
              colorLog ''Preserve mode: Original HEIC files will be kept'' cyan])))
      else if length args = 2 then
        (let targetFolder = sys_resolve S (args ! 0);
             deleteOriginals = (toLowerCase (args ! 1) = ''delete'')
         in (targetFolder, deleteOriginals,
             [colorLog (''Using specified directory: '' @ targetFolder) cyan,
              if deleteOriginals
              then colorLog ''Delete mode: Original HEIC files will be deleted after successful conversion'' yellow
              else colorLog ''Preserve mode: Original HEIC files will be kept'' cyan]))
      else (targetFolder, False, []))"

text \<open>Lines 100-107: \<open>True\<close> when \<^verbatim>\<open>magick -version\<close> did not throw.\<close>

definition check_imagemagick :: "'w sys \<Rightarrow> 'w \<Rightarrow> bool \<times> 'w \<times> event list" where
  "check_imagemagick S w =
     (case execSync S ''magick -version'' w of
        (Ok _, w1, t) \<Rightarrow> (True, w1, t)
      | (Throw _, w1, t) \<Rightarrow>
          (False, w1,
           t @ [colorLog ''ERROR: ImageMagick not found or not in PATH'' red,
                colorLog ''Please install ImageMagick and ensure it's in your system PATH'' red,
                colorLog ''Download from: https://imagemagick.org/script/download.php'' red]))"

text \<open>Lines 110-120: a warning at most.\<close>

definition test_heic_support :: "'w sys \<Rightarrow> 'w \<Rightarrow> 'w \<times> event list" where
  "test_heic_support S w =
     (case execSync S ''magick -list format'' w of
        (Ok formatList, w1, t) \<Rightarrow>
          (if \<not> includes_str (toLowerCase formatList) ''heic'' then
             (w1, t @ [colorLog ''WARNING: HEIC format may not be supported by your ImageMagick installation'' yellow,
                       colorLog ''This could cause conversion errors'' yellow,
                       console_log ''''])
           else (w1, t))
      | (Throw _, w1, t) \<Rightarrow>
          (w1, t @ [colorLog ''WARNING: Could not verify HEIC support'' yellow, console_log '''']))"

text \<open>
  The callback of \<^verbatim>\<open>allFiles.filter\<close>, lines 138-141, run over the array from left to
  right: \<^verbatim>\<open>lstatSync\<close> is called only for a name that ends in \<^verbatim>\<open>.heic\<close>, and an
  error it throws ends the filter.
\<close>

fun filter_heic ::
  "'w sys \<Rightarrow> string \<Rightarrow> string list \<Rightarrow> 'w \<Rightarrow> string list js_result \<times> event list" where
  "filter_heic S targetFolder [] w = (Ok [], [])"
| "filter_heic S targetFolder (file # rest) w =
     (if endsWith (toLowerCase file) ''.heic'' then
        (case sys_lstat S (sys_join S targetFolder file) w of
           Throw m \<Rightarrow> (Throw m, [Lstat (sys_join S targetFolder file)])
         | Ok k \<Rightarrow>
             (case filter_heic S targetFolder rest w of
                (Throw m, t) \<Rightarrow> (Throw m, Lstat (sys_join S targetFolder file) # t)
              | (Ok heicFiles, t) \<Rightarrow>
                  (Ok (if k = IsFile then file # heicFiles else heicFiles),
                   Lstat (sys_join S targetFolder file) # t)))
      else filter_heic S targetFolder rest w)"

text \<open>Lines 136-141, the body of the \<^verbatim>\<open>try\<close>.\<close>

definition find_heic_files ::
  "'w sys \<Rightarrow> string \<Rightarrow> 'w \<Rightarrow> string list js_result \<times> event list" where
  "find_heic_files S targetFolder w =
     (case sys_readdir S targetFolder w of
        Throw m \<Rightarrow> (Throw m, [Readdir targetFolder])
      | Ok allFiles \<Rightarrow>
          (case filter_heic S targetFolder allFiles w of
             (r, t) \<Rightarrow> (r, Readdir targetFolder # t)))"

text \<open>Lines 217-221, the report after the loop.\<close>

definition final_report :: "counters \<Rightarrow> event list" where
  "final_report cnt =
     [colorLog ''Conversion complete!'' (bright @ green),
      colorLog (''Files converted successfully: '' @ string_of_nat (converted cnt)) green]
     @ (if failed cnt > 0
        then [colorLog (''Files that failed: '' @ string_of_nat (failed cnt)) red]
        else [])"

text \<open>
  How the process ends: \<^verbatim>\<open>process.exit(code)\<close>, or \<^verbatim>\<open>main\<close> returns, with
  \<^verbatim>\<open>heicFiles.length\<close> and the two counters as they are then, and Node exits with
  status 0.
\<close>

datatype run_end = ProcessExit int | Returned nat counters

fun exit_status :: "run_end \<Rightarrow> int" where
  "exit_status (ProcessExit code) = code"
| "exit_status (Returned n cnt) = 0"

text \<open>
  Lines 122-221, from the check of the directory on. An error thrown by
  \<^verbatim>\<open>lstatSync(targetFolder)\<close> leaves \<^verbatim>\<open>main\<close> and reaches the handler of line 237.
\<close>

definition convert_folder ::
  "'w sys \<Rightarrow> string \<Rightarrow> bool \<Rightarrow> 'w \<Rightarrow> run_end \<times> 'w \<times> event list" where
  "convert_folder S targetFolder deleteOriginals w =
     (if \<not> sys_exists S targetFolder w then
        (ProcessExit 1, w,
         [Exists targetFolder,
          colorLog (''ERROR: Directory \"'' @ targetFolder @ ''\" does not exist'') red])
      else
        (case sys_lstat S targetFolder w of
           Throw m \<Rightarrow>
             (ProcessExit 1, w,
              [Exists targetFolder, Lstat targetFolder, colorLog (''Error: '' @ m) red])
         | Ok k \<Rightarrow>
             if k \<noteq> IsDirectory then
               (ProcessExit 1, w,
                [Exists targetFolder, Lstat targetFolder,
                 colorLog (''ERROR: \"'' @ targetFolder @ ''\" is not a directory'') red])
             else
               (case find_heic_files S targetFolder w of
                  (Throw m, t1) \<Rightarrow>
                    (ProcessExit 1, w,
                     [Exists targetFolder, Lstat targetFolder] @ t1 @
                     [colorLog (''ERROR: Cannot read directory \"'' @ targetFolder @ ''\"'') red,
                      colorLog (''Details: '' @ m) red])
                | (Ok heicFiles, t1) \<Rightarrow>
                    if length heicFiles = 0 then
                      (ProcessExit 0, w,
                       [Exists targetFolder, Lstat targetFolder] @ t1 @
                       [colorLog ''No HEIC files found in target directory'' yellow])
                    else
                      (case convert_all S targetFolder deleteOriginals heicFiles
                              \<lparr>converted = 0, failed = 0\<rparr> w of
                         (cnt, w1, t2) \<Rightarrow>
                           (Returned (length heicFiles) cnt, w1,
                            [Exists targetFolder, Lstat targetFolder] @ t1 @
                            [colorLog (''Found '' @ string_of_nat (length heicFiles)
                                         @ '' HEIC file(s) to convert'') green,
                             console_log ''''] @ t2 @ final_report cnt)))))"

text \<open>\<^verbatim>\<open>main\<close>, lines 56-222, run with the arguments \<^verbatim>\<open>process.argv.slice(2)\<close>.\<close>

definition main :: "'w sys \<Rightarrow> string list \<Rightarrow> 'w \<Rightarrow> run_end \<times> 'w \<times> event list" where
  "main S args w =
     (let t0 = [colorLog ''HEIC to JPEG Converter (Node.js)'' (bright @ green),
                colorLog ''===================================='' (bright @ green),
                console_log '''']
      in case parse_args S args of
           (targetFolder, deleteOriginals, t1) \<Rightarrow>
             (case check_imagemagick S w of
                (False, w1, t2) \<Rightarrow> (ProcessExit 1, w1, t0 @ t1 @ [console_log ''''] @ t2)
              | (True, w1, t2) \<Rightarrow>
                  (case test_heic_support S w1 of
                     (w2, t3) \<Rightarrow>
                       (case convert_folder S targetFolder deleteOriginals w2 of
                          (e, w3, t4) \<Rightarrow>
                            (e, w3, t0 @ t1 @ [console_log ''''] @ t2 @ t3 @ t4)))))"

section \<open>Reading a run\<close>

text \<open>The child exited with status zero.\<close>

fun exited_zero :: "proc_outcome \<Rightarrow> bool" where
  "exited_zero (Exited st out err) = (st = 0)"
| "exited_zero (SpawnError m) = False"

fun is_ok :: "'a js_result \<Rightarrow> bool" where
  "is_ok (Ok x) = True"
| "is_ok (Throw m) = False"

text \<open>The commands started and the files removed, in order.\<close>

fun spawns :: "event list \<Rightarrow> string list" where
  "spawns [] = []"
| "spawns (Spawn c # t) = c # spawns t"
| "spawns (e # t) = spawns t"

fun unlinks :: "event list \<Rightarrow> string list" where
  "unlinks [] = []"
| "unlinks (Unlink p # t) = p # unlinks t"
| "unlinks (e # t) = unlinks t"

text \<open>Everything but the printed lines: what the run did to the machine.\<close>

fun calls :: "event list \<Rightarrow> event list" where
  "calls [] = []"
| "calls (Print s # t) = calls t"
| "calls (e # t) = e # calls t"

text \<open>
  The extension of a file name as the specification uses the word: the part of the name
  from its last dot on, empty when the name has no dot.
\<close>

definition spec_extension :: "string \<Rightarrow> string" where
  "spec_extension f =
     (if CHR ''.'' \<in> set f then CHR ''.'' # rev (takeWhile (\<lambda>c. c \<noteq> CHR ''.'') (rev f)) else [])"



section \<open>Machines for concrete runs\<close>

text \<open>
  A machine for the examples: the directory \<open>dir\<close> holds \<open>entries\<close>, a command fails
  when \<open>fails\<close> says so, and removing a file works when \<open>unlink_ok\<close>. Its state counts the
  commands run so far.
\<close>

definition mock_sys ::
  "string \<Rightarrow> (string \<times> stat_kind) list \<Rightarrow> (string \<Rightarrow> bool) \<Rightarrow> bool \<Rightarrow> nat sys" where
  "mock_sys dir entries fails unlink_ok =
     \<lparr>sys_cwd = ''/home/user'',
      sys_resolve = (\<lambda>p. if take 1 p = ''/'' then p else ''/home/user/'' @ p),
      sys_join = (\<lambda>d f. d @ ''/'' @ f),
      sys_run = (\<lambda>cmd n. (if fails cmd then Exited 1 [] ''no decode delegate''
                            else Exited 0 ''HEIC* rw+'' [], Suc n)),
      sys_exists = (\<lambda>p n. p = dir \<or> p \<in> set (map (\<lambda>(f, k). dir @ ''/'' @ f) entries)),
      sys_lstat = (\<lambda>p n. if p = dir then Ok IsDirectory
                          else (case map_of (map (\<lambda>(f, k). (dir @ ''/'' @ f, k)) entries) p of
                                  Some k \<Rightarrow> Ok k
                                | None \<Rightarrow> Throw ''ENOENT: no such file or directory'')),
      sys_readdir = (\<lambda>p n. if p = dir then Ok (map fst entries)
                            else Throw ''ENOENT: no such file or directory''),
      sys_unlink = (\<lambda>p n. (if unlink_ok then Ok () else Throw ''EPERM: operation not permitted'', n))\<rparr>"

text \<open>The directory of the scenarios: three HEIC files and a text file.\<close>

definition photos :: "(string \<times> stat_kind) list" where
  "photos = [(''a.heic'', IsFile), (''b.heic'', IsFile), (''c.HEIC'', IsFile), (''notes.txt'', IsFile)]"

text \<open>One file that only the third command converts.\<close>

definition third_only :: "nat sys" where
  "third_only = mock_sys ''/p'' [(''a.heic'', IsFile)]
     (\<lambda>c. c \<noteq> cmd_orient ''/p/a.heic'' ''/p/a.jpg'') True"

text \<open>Machines over the directory \<open>/home/user/Photos\<close> holding \<open>photos\<close>.\<close>

definition all_ok :: "nat sys" where
  "all_ok = mock_sys ''/home/user/Photos'' photos (\<lambda>c. False) True"

definition no_magick :: "nat sys" where
  "no_magick = mock_sys ''/home/user/Photos'' photos (\<lambda>c. True) True"

text \<open>A directory with a subdirectory whose name ends in \<open>.heic\<close>.\<close>

definition with_subdir :: "nat sys" where
  "with_subdir = mock_sys ''/home/user/Photos''
     [(''a.heic'', IsFile), (''old.heic'', IsDirectory), (''notes.txt'', IsFile)]
     (\<lambda>c. False) True"

text \<open>
  The tool fails on the first two commands for \<open>a.heic\<close> and on all three for
  \<open>b.heic\<close>; removing a file works.
\<close>

definition b_fails :: "nat sys" where
  "b_fails = mock_sys ''/home/user/Photos'' photos
     (\<lambda>c. c \<in> set [cmd_direct ''/home/user/Photos/a.heic'' ''/home/user/Photos/a.jpg'',
                     cmd_format ''/home/user/Photos/a.heic'' ''/home/user/Photos/a.jpg'',
                     cmd_direct ''/home/user/Photos/b.heic'' ''/home/user/Photos/b.jpg'',
                     cmd_format ''/home/user/Photos/b.heic'' ''/home/user/Photos/b.jpg'',
                     cmd_orient ''/home/user/Photos/b.heic'' ''/home/user/Photos/b.jpg''])
     True"

text \<open>One file, a tool that works, and a file system that refuses to remove files.\<close>

definition unlink_denied :: "nat sys" where
  "unlink_denied = mock_sys ''/home/user/Photos'' [(''a.heic'', IsFile)] (\<lambda>c. False) False"

text \<open>A directory without any HEIC file, and one file that can be removed.\<close>

definition only_notes :: "nat sys" where
  "only_notes = mock_sys ''/home/user/Photos'' [(''notes.txt'', IsFile)] (\<lambda>c. False) True"


text \<open>A directory that holds a file whose whole name is \<open>.heic\<close>.\<close>

definition dotfile_dir :: "nat sys" where
  "dotfile_dir = mock_sys ''/home/user/Photos''
     [(''.heic'', IsFile), (''notes.txt'', IsFile)] (\<lambda>c. False) True"

section \<open>Facts about the trace and the steps\<close>

lemma spawns_append [simp]: "spawns (t @ u) = spawns t @ spawns u"
  by (induction t rule: spawns.induct) simp_all

lemma unlinks_append [simp]: "unlinks (t @ u) = unlinks t @ unlinks u"
  by (induction t rule: unlinks.induct) simp_all

lemma calls_append [simp]: "calls (t @ u) = calls t @ calls u"
  by (induction t rule: calls.induct) simp_all

lemma execSync_result_ok: "is_ok (execSync_result cmd r) = exited_zero r"
  by (cases r) (simp_all add: execSync_result_def)

lemma execSync_result_ok_iff: "(\<exists>out. execSync_result cmd r = Ok out) = exited_zero r"
  by (cases r) (simp_all add: execSync_result_def)

lemma try_strategies_eq:
  assumes "sys_run S (cmd_direct i p) w = (r1, w1)"
      and "sys_run S (cmd_format i p) w1 = (r2, w2)"
      and "sys_run S (cmd_orient i p) w2 = (r3, w3)"
  shows "try_strategies S i p w =
     (if exited_zero r1 then (Ok (), w1, [Spawn (cmd_direct i p)])
      else if exited_zero r2 then
        (Ok (), w2, [Spawn (cmd_direct i p),
                     console_log ''  Retrying with format specification...'',
                     Spawn (cmd_format i p)])
      else
        (case execSync_result (cmd_orient i p) r3 of Ok x \<Rightarrow> Ok () | Throw m \<Rightarrow> Throw m, w3,
           [Spawn (cmd_direct i p),
            console_log ''  Retrying with format specification...'',
            Spawn (cmd_format i p),
            console_log ''  Retrying with alternative options...'',
            Spawn (cmd_orient i p)]))"
  using assms
  by (cases r1; cases r2; cases r3)
     (simp_all add: try_strategies_def execSync_def execSync_result_def)

lemma delete_original_spawns [simp]: "spawns (snd (delete_original S i f w)) = []"
  by (simp add: delete_original_def colorLog_def split: prod.splits js_result.splits)

lemma delete_original_unlinks [simp]: "unlinks (snd (delete_original S i f w)) = [i]"
  by (simp add: delete_original_def colorLog_def split: prod.splits js_result.splits)

lemma try_strategies_unlinks: "try_strategies S i p w = (r, w', t) \<Longrightarrow> unlinks t = []"
  by (auto simp add: try_strategies_def execSync_def console_log_def
        split: prod.splits js_result.splits)

lemma process_file_eq:
  assumes "try_strategies S (sys_join S d f) (sys_join S d (path_parse_name f @ ''.jpg'')) w
             = (r, w1, t1)"
  shows "process_file S d del f cnt w =
     (case r of
        Ok x \<Rightarrow>
          (cnt\<lparr>converted := converted cnt + 1\<rparr>,
           if del then fst (delete_original S (sys_join S d f) f w1) else w1,
           [colorLog (''Converting: '' @ f) cyan] @ t1
             @ [colorLog (''  SUCCESS: Created '' @ path_parse_name f @ ''.jpg'') green]
             @ (if del then snd (delete_original S (sys_join S d f) f w1) else [])
             @ [console_log ''''])
      | Throw m \<Rightarrow>
          (cnt\<lparr>failed := failed cnt + 1\<rparr>, w1,
           [colorLog (''Converting: '' @ f) cyan] @ t1
             @ [colorLog (''  ERROR: Failed to convert '' @ f) red,
                colorLog (''  Details: '' @ m) red,
                console_log '''']))"
  using assms
  by (simp add: process_file_def Let_def split: prod.splits js_result.splits)

lemma process_file_spawns:
  "process_file S d del f cnt w = (cnt', w', t) \<Longrightarrow>
   try_strategies S (sys_join S d f) (sys_join S d (path_parse_name f @ ''.jpg'')) w = (r, w1, t1) \<Longrightarrow>
   spawns t = spawns t1"
  by (auto simp add: process_file_eq colorLog_def console_log_def split: js_result.splits)

lemma process_file_unlinks:
  "process_file S d del f cnt w = (cnt', w', t) \<Longrightarrow>
   try_strategies S (sys_join S d f) (sys_join S d (path_parse_name f @ ''.jpg'')) w = (r, w1, t1) \<Longrightarrow>
   unlinks t = (if is_ok r \<and> del then [sys_join S d f] else [])"
  using try_strategies_unlinks [of S "sys_join S d f" "sys_join S d (path_parse_name f @ ''.jpg'')" w r w1 t1]
  by (auto simp add: process_file_eq colorLog_def console_log_def split: js_result.splits)

lemma process_file_counters:
  "process_file S d del f cnt w = (cnt', w', t) \<Longrightarrow>
   try_strategies S (sys_join S d f) (sys_join S d (path_parse_name f @ ''.jpg'')) w = (r, w1, t1) \<Longrightarrow>
   cnt' = (if is_ok r then cnt\<lparr>converted := converted cnt + 1\<rparr>
           else cnt\<lparr>failed := failed cnt + 1\<rparr>)"
  by (auto simp add: process_file_eq split: js_result.splits)

section \<open>The claims\<close>

text \<open>
  C1. For every target the three commands are tried in the fixed order direct, format
  hint, auto-orient; a command succeeds exactly when its child exits with status zero;
  a target that succeeds on the Nth command is counted as converted and no later
  command is started. Here \<open>r1\<close>, \<open>r2\<close>, \<open>r3\<close> are what the three commands would do,
  one after the other, on the machine.
\<close>

theorem strategies_in_fixed_order_first_success_wins:
  fixes S :: "'w sys"
  defines "i \<equiv> \<lambda>d f. sys_join S d f"
      and "p \<equiv> \<lambda>d f. sys_join S d (path_parse_name f @ ''.jpg'')"
  assumes "sys_run S (cmd_direct (i d f) (p d f)) w = (r1, w1)"
      and "sys_run S (cmd_format (i d f) (p d f)) w1 = (r2, w2)"
      and "sys_run S (cmd_orient (i d f) (p d f)) w2 = (r3, w3)"
      and "process_file S d del f cnt w = (cnt', w', t)"
  shows "is_ok (execSync_result c r) = exited_zero r
       \<and> (exited_zero r1 \<longrightarrow>
            spawns t = [cmd_direct (i d f) (p d f)]
            \<and> cnt' = cnt\<lparr>converted := converted cnt + 1\<rparr>)
       \<and> (\<not> exited_zero r1 \<and> exited_zero r2 \<longrightarrow>
            spawns t = [cmd_direct (i d f) (p d f), cmd_format (i d f) (p d f)]
            \<and> cnt' = cnt\<lparr>converted := converted cnt + 1\<rparr>)
       \<and> (\<not> exited_zero r1 \<and> \<not> exited_zero r2 \<and> exited_zero r3 \<longrightarrow>
            spawns t = [cmd_direct (i d f) (p d f), cmd_format (i d f) (p d f),
                        cmd_orient (i d f) (p d f)]
            \<and> cnt' = cnt\<lparr>converted := converted cnt + 1\<rparr>)"
proof -
  obtain r0 w0 t0 where ts: "try_strategies S (i d f) (p d f) w = (r0, w0, t0)"
    by (cases "try_strategies S (i d f) (p d f) w") auto
  note eq = try_strategies_eq [OF assms(3) assms(4) assms(5)]
  have sp: "spawns t = spawns t0"
    using process_file_spawns [OF assms(6)] ts by (simp add: i_def p_def)
  have ct: "cnt' = (if is_ok r0 then cnt\<lparr>converted := converted cnt + 1\<rparr>
                    else cnt\<lparr>failed := failed cnt + 1\<rparr>)"
    using process_file_counters [OF assms(6)] ts by (simp add: i_def p_def)
  have ok3: "exited_zero r3 \<Longrightarrow> \<exists>x. execSync_result (cmd_orient (i d f) (p d f)) r3 = Ok x"
    by (simp add: execSync_result_ok_iff)
  have a: "is_ok (execSync_result c r) = exited_zero r"
    by (rule execSync_result_ok)
  have b: "exited_zero r1 \<Longrightarrow>
            spawns t = [cmd_direct (i d f) (p d f)]
            \<and> cnt' = cnt\<lparr>converted := converted cnt + 1\<rparr>"
    using eq ts sp ct by simp
  have c: "\<not> exited_zero r1 \<Longrightarrow> exited_zero r2 \<Longrightarrow>
            spawns t = [cmd_direct (i d f) (p d f), cmd_format (i d f) (p d f)]
            \<and> cnt' = cnt\<lparr>converted := converted cnt + 1\<rparr>"
    using eq ts sp ct by (simp add: console_log_def)
  have d: "\<not> exited_zero r1 \<Longrightarrow> \<not> exited_zero r2 \<Longrightarrow> exited_zero r3 \<Longrightarrow>
            spawns t = [cmd_direct (i d f) (p d f), cmd_format (i d f) (p d f),
                        cmd_orient (i d f) (p d f)]
            \<and> cnt' = cnt\<lparr>converted := converted cnt + 1\<rparr>"
    using eq ts sp ct ok3 by (auto simp add: console_log_def)
  from a b c d show ?thesis by blast
qed


lemma mock_sys_simps [simp]:
  "sys_cwd (mock_sys dir entries fails unlink_ok) = ''/home/user''"
  "sys_join (mock_sys dir entries fails unlink_ok) d f = d @ ''/'' @ f"
  "sys_run (mock_sys dir entries fails unlink_ok) cmd n =
     (if fails cmd then Exited 1 [] ''no decode delegate'' else Exited 0 ''HEIC* rw+'' [], Suc n)"
  "sys_exists (mock_sys dir entries fails unlink_ok) q n =
     (q = dir \<or> q \<in> set (map (\<lambda>(f, k). dir @ ''/'' @ f) entries))"
  "sys_readdir (mock_sys dir entries fails unlink_ok) q n =
     (if q = dir then Ok (map fst entries) else Throw ''ENOENT: no such file or directory'')"
  "sys_unlink (mock_sys dir entries fails unlink_ok) q n =
     (if unlink_ok then Ok () else Throw ''EPERM: operation not permitted'', n)"
  "sys_resolve (mock_sys dir entries fails unlink_ok) q =
     (if take 1 q = ''/'' then q else ''/home/user/'' @ q)"
  "sys_lstat (mock_sys dir entries fails unlink_ok) q n =
     (if q = dir then Ok IsDirectory
      else (case map_of (map (\<lambda>(f, k). (dir @ ''/'' @ f, k)) entries) q of
              Some k \<Rightarrow> Ok k
            | None \<Rightarrow> Throw ''ENOENT: no such file or directory''))"
  by (simp_all add: mock_sys_def)

lemma name_a: "path_parse_name ''a.heic'' = ''a''"
  by (simp add: path_parse_name_def path_base_def)

text \<open>C1 at a file that only the third command converts.\<close>

theorem strategies_witness:
  "spawns (snd (snd (process_file third_only ''/p'' False ''a.heic'' \<lparr>converted = 0, failed = 0\<rparr> 0)))
     = [cmd_direct ''/p/a.heic'' ''/p/a.jpg'', cmd_format ''/p/a.heic'' ''/p/a.jpg'',
        cmd_orient ''/p/a.heic'' ''/p/a.jpg'']
   \<and> fst (process_file third_only ''/p'' False ''a.heic'' \<lparr>converted = 0, failed = 0\<rparr> 0)
     = \<lparr>converted = 1, failed = 0\<rparr>"
proof -
  have h1: "sys_run third_only (cmd_direct (sys_join third_only ''/p'' ''a.heic'')
              (sys_join third_only ''/p'' (path_parse_name ''a.heic'' @ ''.jpg''))) 0
            = (Exited 1 [] ''no decode delegate'', 1)"
    by (simp add: third_only_def name_a cmd_direct_def cmd_orient_def)
  have h2: "sys_run third_only (cmd_format (sys_join third_only ''/p'' ''a.heic'')
              (sys_join third_only ''/p'' (path_parse_name ''a.heic'' @ ''.jpg''))) 1
            = (Exited 1 [] ''no decode delegate'', 2)"
    by (simp add: third_only_def name_a cmd_format_def cmd_orient_def)
  have h3: "sys_run third_only (cmd_orient (sys_join third_only ''/p'' ''a.heic'')
              (sys_join third_only ''/p'' (path_parse_name ''a.heic'' @ ''.jpg''))) 2
            = (Exited 0 ''HEIC* rw+'' [], 3)"
    by (simp add: third_only_def name_a)
  have h4: "process_file third_only ''/p'' False ''a.heic'' \<lparr>converted = 0, failed = 0\<rparr> 0
            = (fst (process_file third_only ''/p'' False ''a.heic'' \<lparr>converted = 0, failed = 0\<rparr> 0),
               fst (snd (process_file third_only ''/p'' False ''a.heic'' \<lparr>converted = 0, failed = 0\<rparr> 0)),
               snd (snd (process_file third_only ''/p'' False ''a.heic'' \<lparr>converted = 0, failed = 0\<rparr> 0)))"
    by simp
  from strategies_in_fixed_order_first_success_wins [OF h1 h2 h3 h4]
  show ?thesis by (simp add: third_only_def name_a)
qed

lemma calls_colorLog [simp]: "calls (colorLog m c # t) = calls t"
  by (simp add: colorLog_def)

lemma calls_console_log [simp]: "calls (console_log m # t) = calls t"
  by (simp add: console_log_def)

lemma parse_args_calls: "parse_args S args = (d, del, t) \<Longrightarrow> calls t = []"
  by (auto simp add: parse_args_def Let_def split: if_splits)

lemma check_imagemagick_eq:
  assumes "sys_run S ''magick -version'' w = (r, w1)"
  shows "check_imagemagick S w =
     (exited_zero r, w1,
      Spawn ''magick -version'' #
      (if exited_zero r then []
       else [colorLog ''ERROR: ImageMagick not found or not in PATH'' red,
             colorLog ''Please install ImageMagick and ensure it's in your system PATH'' red,
             colorLog ''Download from: https://imagemagick.org/script/download.php'' red]))"
  using assms
  by (cases r) (simp_all add: check_imagemagick_def execSync_def execSync_result_def)

lemma test_heic_support_calls:
  assumes "sys_run S ''magick -list format'' w = (r, w1)"
      and "test_heic_support S w = (w', t)"
  shows "w' = w1 \<and> calls t = [Spawn ''magick -list format'']"
  using assms
  by (auto simp add: test_heic_support_def execSync_def split: js_result.splits if_splits)

lemma main_eq:
  assumes "parse_args S args = (d, del, t1)"
      and "sys_run S ''magick -version'' w = (r, w1)"
      and "test_heic_support S w1 = (w2, t3)"
  shows "main S args w =
     (if exited_zero r then
        (fst (convert_folder S d del w2), fst (snd (convert_folder S d del w2)),
         [colorLog ''HEIC to JPEG Converter (Node.js)'' (bright @ green),
          colorLog ''===================================='' (bright @ green),
          console_log ''''] @ t1 @ [console_log ''''] @ [Spawn ''magick -version''] @ t3
          @ snd (snd (convert_folder S d del w2)))
      else
        (ProcessExit 1, w1,
         [colorLog ''HEIC to JPEG Converter (Node.js)'' (bright @ green),
          colorLog ''===================================='' (bright @ green),
          console_log ''''] @ t1 @ [console_log ''''] @
         [Spawn ''magick -version'',
          colorLog ''ERROR: ImageMagick not found or not in PATH'' red,
          colorLog ''Please install ImageMagick and ensure it's in your system PATH'' red,
          colorLog ''Download from: https://imagemagick.org/script/download.php'' red]))"
  using assms
  by (simp add: main_def check_imagemagick_eq [OF assms(2)] split: prod.splits)

text \<open>
  C2. When a precondition fails (the tool is not available, the target directory is
  missing or is not a directory), the process ends with a non-zero status before
  anything is enumerated or touched: it has started no conversion, read no directory and
  removed no file; when the tool is not available it has not even looked at the
  directory.
\<close>

theorem precondition_failure_exits_before_enumeration:
  assumes "parse_args S args = (d, del, t1)"
      and "sys_run S ''magick -version'' w = (r, w1)"
      and "sys_run S ''magick -list format'' w1 = (r', w2)"
      and "main S args w = (e, w', t)"
  shows "(\<not> exited_zero r \<longrightarrow>
            e = ProcessExit 1 \<and> exit_status e \<noteq> 0 \<and> calls t = [Spawn ''magick -version''])
       \<and> (exited_zero r \<and> \<not> sys_exists S d w2 \<longrightarrow>
            e = ProcessExit 1 \<and> exit_status e \<noteq> 0
            \<and> calls t = [Spawn ''magick -version'', Spawn ''magick -list format'', Exists d])
       \<and> (exited_zero r \<and> sys_exists S d w2 \<and> sys_lstat S d w2 = Ok k \<and> k \<noteq> IsDirectory \<longrightarrow>
            e = ProcessExit 1 \<and> exit_status e \<noteq> 0
            \<and> calls t = [Spawn ''magick -version'', Spawn ''magick -list format'',
                         Exists d, Lstat d])"
proof -
  obtain w3 t3 where th: "test_heic_support S w1 = (w3, t3)"
    by (cases "test_heic_support S w1") auto
  from test_heic_support_calls [OF assms(3) th]
  have w3: "w3 = w2" and c3: "calls t3 = [Spawn ''magick -list format'']" by simp_all
  note m = main_eq [OF assms(1) assms(2) th]
  note c1 = parse_args_calls [OF assms(1)]
  have a: "\<not> exited_zero r \<Longrightarrow>
            e = ProcessExit 1 \<and> exit_status e \<noteq> 0 \<and> calls t = [Spawn ''magick -version'']"
    using assms(4) m c1 by auto
  have b: "exited_zero r \<Longrightarrow> \<not> sys_exists S d w2 \<Longrightarrow>
            e = ProcessExit 1 \<and> exit_status e \<noteq> 0
            \<and> calls t = [Spawn ''magick -version'', Spawn ''magick -list format'', Exists d]"
    using assms(4) m c1 c3 w3 by (auto simp add: convert_folder_def)
  have c: "exited_zero r \<Longrightarrow> sys_exists S d w2 \<Longrightarrow> sys_lstat S d w2 = Ok k \<Longrightarrow> k \<noteq> IsDirectory \<Longrightarrow>
            e = ProcessExit 1 \<and> exit_status e \<noteq> 0
            \<and> calls t = [Spawn ''magick -version'', Spawn ''magick -list format'',
                         Exists d, Lstat d]"
    using assms(4) m c1 c3 w3 by (auto simp add: convert_folder_def)
  from a b c show ?thesis by blast
qed


text \<open>C2 with the tool missing, with a missing directory and with a file as target.\<close>

theorem precondition_failure_witness:
  "fst (main no_magick [''/home/user/Photos''] 0) = ProcessExit 1
   \<and> calls (snd (snd (main no_magick [''/home/user/Photos''] 0))) = [Spawn ''magick -version'']
   \<and> fst (main all_ok [''/nowhere''] 0) = ProcessExit 1
   \<and> calls (snd (snd (main all_ok [''/nowhere''] 0)))
       = [Spawn ''magick -version'', Spawn ''magick -list format'', Exists ''/nowhere'']
   \<and> fst (main all_ok [''/home/user/Photos/notes.txt''] 0) = ProcessExit 1
   \<and> calls (snd (snd (main all_ok [''/home/user/Photos/notes.txt''] 0)))
       = [Spawn ''magick -version'', Spawn ''magick -list format'',
          Exists ''/home/user/Photos/notes.txt'', Lstat ''/home/user/Photos/notes.txt'']"
proof -
  have p1: "parse_args no_magick [''/home/user/Photos'']
            = (''/home/user/Photos'', False, snd (snd (parse_args no_magick [''/home/user/Photos''])))"
    by (simp add: parse_args_def Let_def no_magick_def toLowerCase_def lower_char_def)
  have r1: "sys_run no_magick ''magick -version'' 0 = (Exited 1 [] ''no decode delegate'', 1)"
    by (simp add: no_magick_def)
  have r1': "sys_run no_magick ''magick -list format'' 1 = (Exited 1 [] ''no decode delegate'', 2)"
    by (simp add: no_magick_def)
  have p2: "parse_args all_ok [''/nowhere'']
            = (''/nowhere'', False, snd (snd (parse_args all_ok [''/nowhere''])))"
    by (simp add: parse_args_def Let_def all_ok_def toLowerCase_def lower_char_def)
  have p3: "parse_args all_ok [''/home/user/Photos/notes.txt'']
            = (''/home/user/Photos/notes.txt'', False,
               snd (snd (parse_args all_ok [''/home/user/Photos/notes.txt''])))"
    by (simp add: parse_args_def Let_def all_ok_def toLowerCase_def lower_char_def)
  have r2: "sys_run all_ok ''magick -version'' 0 = (Exited 0 ''HEIC* rw+'' [], 1)"
    by (simp add: all_ok_def)
  have r2': "sys_run all_ok ''magick -list format'' 1 = (Exited 0 ''HEIC* rw+'' [], 2)"
    by (simp add: all_ok_def)
  have e2: "\<not> sys_exists all_ok ''/nowhere'' 2"
    by (simp add: all_ok_def photos_def)
  have e3: "sys_exists all_ok ''/home/user/Photos/notes.txt'' 2"
    by (simp add: all_ok_def photos_def)
  have l3: "sys_lstat all_ok ''/home/user/Photos/notes.txt'' 2 = Ok IsFile"
    by (simp add: all_ok_def photos_def)
  have m: "main M a 0 = (fst (main M a 0), fst (snd (main M a 0)), snd (snd (main M a 0)))"
    for M :: "nat sys" and a
    by simp
  from precondition_failure_exits_before_enumeration [OF p1 r1 r1' m]
       precondition_failure_exits_before_enumeration [OF p2 r2 r2' m, of IsFile]
       precondition_failure_exits_before_enumeration [OF p3 r2 r2' m, of IsFile]
       e2 e3 l3
  show ?thesis by simp
qed

lemma lower_char_dot: "lower_char c = CHR ''.'' \<longleftrightarrow> c = CHR ''.''"
  by (auto simp add: lower_char_def Let_def char_of_eq_iff take_bit_eq_mod)

lemma spec_extension_split:
  assumes "f = pre @ CHR ''.'' # rest" and "CHR ''.'' \<notin> set rest"
  shows "spec_extension f = CHR ''.'' # rest"
proof -
  have "takeWhile (\<lambda>c. c \<noteq> CHR ''.'') (rev rest @ CHR ''.'' # rev pre) = rev rest"
    using assms(2) by (auto simp add: takeWhile_tail takeWhile_eq_all_conv)
  then show ?thesis
    using assms(1) by (simp add: spec_extension_def)
qed

lemma spec_extension_suffix:
  assumes "CHR ''.'' \<in> set f"
  shows "\<exists>pre. f = pre @ spec_extension f"
proof -
  let ?P = "\<lambda>c. c \<noteq> CHR ''.''"
  have ne: "dropWhile ?P (rev f) \<noteq> []"
    using assms by (simp add: dropWhile_eq_Nil_conv)
  then obtain x xs where dw: "dropWhile ?P (rev f) = x # xs"
    by (cases "dropWhile ?P (rev f)") auto
  have "\<not> ?P x"
    using hd_dropWhile [OF ne] dw by simp
  then have x: "x = CHR ''.''" by simp
  have "rev f = takeWhile ?P (rev f) @ CHR ''.'' # xs"
    using takeWhile_dropWhile_id [of ?P "rev f"] dw x by simp
  then have "rev (rev f) = rev (takeWhile ?P (rev f) @ CHR ''.'' # xs)"
    by simp
  then have "f = rev xs @ CHR ''.'' # rev (takeWhile ?P (rev f))"
    by simp
  then show ?thesis
    using assms by (auto simp add: spec_extension_def)
qed

lemma endsWith_append: "endsWith (xs @ t) t"
  by (simp add: endsWith_def)

lemma endsWith_heic_iff:
  "endsWith (toLowerCase f) ''.heic'' \<longleftrightarrow> toLowerCase (spec_extension f) = ''.heic''"
proof
  assume e: "endsWith (toLowerCase f) ''.heic''"
  let ?n = "length f - length ''.heic''"
  have m: "map lower_char (drop ?n f) = ''.heic''"
    using e by (simp add: endsWith_def toLowerCase_def drop_map)
  then obtain c rest where s: "drop ?n f = c # rest" and c: "lower_char c = CHR ''.''"
    and r: "map lower_char rest = ''heic''"
    by (auto simp add: map_eq_Cons_conv)
  have c': "c = CHR ''.''" using c by (simp add: lower_char_dot)
  have "CHR ''.'' \<notin> set rest"
  proof
    assume "CHR ''.'' \<in> set rest"
    then have "lower_char (CHR ''.'') \<in> set (map lower_char rest)" by (simp del: r)
    then show False by (simp add: r lower_char_dot [THEN iffD2])
  qed
  moreover have "f = take ?n f @ CHR ''.'' # rest"
  proof -
    have "f = take ?n f @ drop ?n f" by simp
    also have "\<dots> = take ?n f @ CHR ''.'' # rest" by (simp only: s c')
    finally show ?thesis .
  qed
  ultimately have "spec_extension f = CHR ''.'' # rest"
    by (rule spec_extension_split [rotated])
  then show "toLowerCase (spec_extension f) = ''.heic''"
    using r c by (simp add: toLowerCase_def c')
next
  assume x: "toLowerCase (spec_extension f) = ''.heic''"
  then have "CHR ''.'' \<in> set f"
    by (auto simp add: spec_extension_def toLowerCase_def split: if_splits)
  then obtain pre where "f = pre @ spec_extension f"
    using spec_extension_suffix by blast
  then have "toLowerCase f = toLowerCase pre @ toLowerCase (spec_extension f)"
    by (metis map_append toLowerCase_def)
  then show "endsWith (toLowerCase f) ''.heic''"
    using x endsWith_append by simp
qed

lemma filter_heic_ok:
  "filter_heic S d files w = (Ok hs, t) \<Longrightarrow>
   hs = [f \<leftarrow> files. endsWith (toLowerCase f) ''.heic'' \<and> sys_lstat S (sys_join S d f) w = Ok IsFile]
   \<and> t = map (\<lambda>f. Lstat (sys_join S d f)) [f \<leftarrow> files. endsWith (toLowerCase f) ''.heic'']"
proof (induction files arbitrary: hs t)
  case Nil
  then show ?case by simp
next
  case (Cons f files)
  show ?case
  proof (cases "endsWith (toLowerCase f) ''.heic''")
    case False
    with Cons show ?thesis by simp
  next
    case True
    with Cons.prems obtain k hs' t' where
      k: "sys_lstat S (sys_join S d f) w = Ok k" and
      rec: "filter_heic S d files w = (Ok hs', t')" and
      hs: "hs = (if k = IsFile then f # hs' else hs')" and
      t: "t = Lstat (sys_join S d f) # t'"
      by (auto split: js_result.splits prod.splits)
    from Cons.IH [OF rec] True k hs t show ?thesis by auto
  qed
qed

text \<open>
  C3. The enumeration is flat and selects exactly the regular files whose extension is
  \<^verbatim>\<open>.heic\<close> in any mix of cases: the directory itself is read once, \<^verbatim>\<open>lstat\<close> is
  called on its entries with that extension and on nothing else, and no other directory
  is read.
\<close>

theorem enumeration_is_flat_and_selects_heic_files:
  assumes "sys_readdir S d w = Ok allFiles"
      and "find_heic_files S d w = (Ok heicFiles, t)"
  shows "heicFiles = [f \<leftarrow> allFiles. toLowerCase (spec_extension f) = ''.heic''
                                  \<and> sys_lstat S (sys_join S d f) w = Ok IsFile]
       \<and> t = Readdir d # map (\<lambda>f. Lstat (sys_join S d f))
                            [f \<leftarrow> allFiles. toLowerCase (spec_extension f) = ''.heic'']"
proof -
  from assms obtain t' where f: "filter_heic S d allFiles w = (Ok heicFiles, t')"
    and t: "t = Readdir d # t'"
    by (auto simp add: find_heic_files_def split: prod.splits)
  from filter_heic_ok [OF f] t show ?thesis
    by (simp add: endsWith_heic_iff)
qed

text \<open>
  C3 on the directory with \<open>a.heic\<close>, \<open>b.heic\<close>, \<open>c.HEIC\<close> and \<open>notes.txt\<close>: three
  candidates, nothing is asked about \<open>notes.txt\<close>, and the run converts all three and
  removes nothing. A subdirectory \<open>old.heic\<close> is looked at and left alone.
\<close>

theorem enumeration_witness:
  "find_heic_files all_ok ''/home/user/Photos'' 0
     = (Ok [''a.heic'', ''b.heic'', ''c.HEIC''],
        [Readdir ''/home/user/Photos'', Lstat ''/home/user/Photos/a.heic'',
         Lstat ''/home/user/Photos/b.heic'', Lstat ''/home/user/Photos/c.HEIC''])
   \<and> [''a.heic'', ''b.heic'', ''c.HEIC'']
     = [f \<leftarrow> map fst photos. toLowerCase (spec_extension f) = ''.heic''
          \<and> sys_lstat all_ok (sys_join all_ok ''/home/user/Photos'' f) 0 = Ok IsFile]
   \<and> find_heic_files with_subdir ''/home/user/Photos'' 0
     = (Ok [''a.heic''],
        [Readdir ''/home/user/Photos'', Lstat ''/home/user/Photos/a.heic'',
         Lstat ''/home/user/Photos/old.heic''])
   \<and> fst (main all_ok [''/home/user/Photos''] 0) = Returned 3 \<lparr>converted = 3, failed = 0\<rparr>
   \<and> unlinks (snd (snd (main all_ok [''/home/user/Photos''] 0))) = []"
proof -
  have h1: "sys_readdir all_ok ''/home/user/Photos'' 0 = Ok (map fst photos)"
    by (simp add: all_ok_def)
  have h2: "find_heic_files all_ok ''/home/user/Photos'' 0
     = (Ok [''a.heic'', ''b.heic'', ''c.HEIC''],
        [Readdir ''/home/user/Photos'', Lstat ''/home/user/Photos/a.heic'',
         Lstat ''/home/user/Photos/b.heic'', Lstat ''/home/user/Photos/c.HEIC''])"
    by code_simp
  have h3: "find_heic_files with_subdir ''/home/user/Photos'' 0
     = (Ok [''a.heic''],
        [Readdir ''/home/user/Photos'', Lstat ''/home/user/Photos/a.heic'',
         Lstat ''/home/user/Photos/old.heic''])"
    by code_simp
  have h4: "fst (main all_ok [''/home/user/Photos''] 0) = Returned 3 \<lparr>converted = 3, failed = 0\<rparr>"
    by code_simp
  have h5: "unlinks (snd (snd (main all_ok [''/home/user/Photos''] 0))) = []"
    by code_simp
  from enumeration_is_flat_and_selects_heic_files [OF h1 h2] h2 h3 h4 h5
  show ?thesis by blast
qed

lemma try_strategies_first:
  "try_strategies S i p w = (r, w', t) \<Longrightarrow> Spawn (cmd_direct i p) \<in> set t"
  by (auto simp add: try_strategies_def execSync_def split: prod.splits js_result.splits)

lemma process_file_first:
  assumes "process_file S d del f cnt w = (cnt', w', t)"
  shows "Spawn (cmd_direct (sys_join S d f) (sys_join S d (path_parse_name f @ ''.jpg''))) \<in> set t"
proof -
  obtain r w1 t1 where
    ts: "try_strategies S (sys_join S d f) (sys_join S d (path_parse_name f @ ''.jpg'')) w
           = (r, w1, t1)"
    by (cases "try_strategies S (sys_join S d f) (sys_join S d (path_parse_name f @ ''.jpg'')) w")
       auto
  from try_strategies_first [OF ts] assms show ?thesis
    by (auto simp add: process_file_eq [OF ts] split: js_result.splits)
qed

lemma convert_all_attempts_every_target:
  "convert_all S d del files cnt w = (cnt', w', t) \<Longrightarrow> g \<in> set files \<Longrightarrow>
   Spawn (cmd_direct (sys_join S d g) (sys_join S d (path_parse_name g @ ''.jpg''))) \<in> set t"
proof (induction files arbitrary: cnt w cnt' w' t)
  case Nil
  then show ?case by simp
next
  case (Cons f files)
  from Cons.prems(1) obtain cnt1 w1 t1 t2 where
    pf: "process_file S d del f cnt w = (cnt1, w1, t1)" and
    ca: "convert_all S d del files cnt1 w1 = (cnt', w', t2)" and
    t: "t = t1 @ t2"
    by (auto split: prod.splits)
  show ?case
  proof (cases "g = f")
    case True
    with process_file_first [OF pf] t show ?thesis by simp
  next
    case False
    with Cons.prems(2) have "g \<in> set files" by simp
    from Cons.IH [OF ca this] t show ?thesis by simp
  qed
qed

text \<open>
  C4. When all three commands fail for a target, the target is counted as failed and the
  error text printed is that of the third command; the original is not removed, whatever
  \<^verbatim>\<open>deleteOriginals\<close> is; and the loop goes on: every later target is still attempted.
\<close>

theorem all_strategies_fail_target_failed_run_continues:
  fixes S :: "'w sys"
  defines "i \<equiv> \<lambda>d f. sys_join S d f"
      and "p \<equiv> \<lambda>d f. sys_join S d (path_parse_name f @ ''.jpg'')"
  assumes "sys_run S (cmd_direct (i d f) (p d f)) w = (r1, w1)"
      and "sys_run S (cmd_format (i d f) (p d f)) w1 = (r2, w2)"
      and "sys_run S (cmd_orient (i d f) (p d f)) w2 = (r3, w3)"
      and "\<not> exited_zero r1" and "\<not> exited_zero r2"
      and "execSync_result (cmd_orient (i d f) (p d f)) r3 = Throw m"
      and "convert_all S d del rest (cnt\<lparr>failed := failed cnt + 1\<rparr>) w3 = (cnt', w', t')"
  shows "process_file S d del f cnt w =
           (cnt\<lparr>failed := failed cnt + 1\<rparr>, w3,
            [colorLog (''Converting: '' @ f) cyan,
             Spawn (cmd_direct (i d f) (p d f)),
             console_log ''  Retrying with format specification...'',
             Spawn (cmd_format (i d f) (p d f)),
             console_log ''  Retrying with alternative options...'',
             Spawn (cmd_orient (i d f) (p d f)),
             colorLog (''  ERROR: Failed to convert '' @ f) red,
             colorLog (''  Details: '' @ m) red,
             console_log ''''])
       \<and> process_file S d True f cnt w = process_file S d False f cnt w
       \<and> unlinks (snd (snd (process_file S d del f cnt w))) = []
       \<and> convert_all S d del (f # rest) cnt w
           = (cnt', w', snd (snd (process_file S d del f cnt w)) @ t')
       \<and> (\<forall>g \<in> set rest. Spawn (cmd_direct (i d g) (p d g)) \<in> set t')"
proof -
  have ts: "try_strategies S (i d f) (p d f) w =
     (Throw m, w3,
      [Spawn (cmd_direct (i d f) (p d f)),
       console_log ''  Retrying with format specification...'',
       Spawn (cmd_format (i d f) (p d f)),
       console_log ''  Retrying with alternative options...'',
       Spawn (cmd_orient (i d f) (p d f))])"
    using try_strategies_eq [OF assms(3) assms(4) assms(5)] assms(6) assms(7) assms(8)
    by simp
  have pf: "process_file S d b f cnt w =
           (cnt\<lparr>failed := failed cnt + 1\<rparr>, w3,
            [colorLog (''Converting: '' @ f) cyan,
             Spawn (cmd_direct (i d f) (p d f)),
             console_log ''  Retrying with format specification...'',
             Spawn (cmd_format (i d f) (p d f)),
             console_log ''  Retrying with alternative options...'',
             Spawn (cmd_orient (i d f) (p d f)),
             colorLog (''  ERROR: Failed to convert '' @ f) red,
             colorLog (''  Details: '' @ m) red,
             console_log ''''])" for b
    using ts by (simp add: process_file_eq [of S d f w "Throw m" w3] i_def p_def)
  have u: "unlinks (snd (snd (process_file S d del f cnt w))) = []"
    by (simp add: pf colorLog_def console_log_def)
  have ca: "convert_all S d del (f # rest) cnt w
           = (cnt', w', snd (snd (process_file S d del f cnt w)) @ t')"
    using assms(9) by (simp add: pf)
  have ev: "\<forall>g \<in> set rest. Spawn (cmd_direct (i d g) (p d g)) \<in> set t'"
    using convert_all_attempts_every_target [OF assms(9)] by (simp add: i_def p_def)
  from pf [of del] pf [of True] pf [of False] u ca ev show ?thesis
    by (simp only: simp_thms)
qed

lemma name_b: "path_parse_name ''b.heic'' = ''b''"
  by (simp add: path_parse_name_def path_base_def)

text \<open>
  C4 on \<open>b.heic\<close>, the second of three targets, in delete mode: it fails, is not
  removed, and \<open>c.HEIC\<close> is converted after it.
\<close>

theorem all_strategies_fail_witness:
  "process_file b_fails ''/home/user/Photos'' True ''b.heic'' \<lparr>converted = 1, failed = 0\<rparr> 5
     = (\<lparr>converted = 1, failed = 1\<rparr>, 8,
        [colorLog ''Converting: b.heic'' cyan,
         Spawn (cmd_direct ''/home/user/Photos/b.heic'' ''/home/user/Photos/b.jpg''),
         console_log ''  Retrying with format specification...'',
         Spawn (cmd_format ''/home/user/Photos/b.heic'' ''/home/user/Photos/b.jpg''),
         console_log ''  Retrying with alternative options...'',
         Spawn (cmd_orient ''/home/user/Photos/b.heic'' ''/home/user/Photos/b.jpg''),
         colorLog ''  ERROR: Failed to convert b.heic'' red,
         colorLog (''  Details: Command failed: ''
                   @ cmd_orient ''/home/user/Photos/b.heic'' ''/home/user/Photos/b.jpg''
                   @ char_of (10 :: nat) # ''no decode delegate'') red,
         console_log ''''])
   \<and> Spawn (cmd_direct ''/home/user/Photos/c.HEIC'' ''/home/user/Photos/c.jpg'')
       \<in> set (snd (snd (convert_all b_fails ''/home/user/Photos'' True [''c.HEIC'']
                           \<lparr>converted = 1, failed = 1\<rparr> 8)))
   \<and> fst (main b_fails [''/home/user/Photos'', ''delete''] 0)
       = Returned 3 \<lparr>converted = 2, failed = 1\<rparr>
   \<and> unlinks (snd (snd (main b_fails [''/home/user/Photos'', ''delete''] 0)))
       = [''/home/user/Photos/a.heic'', ''/home/user/Photos/c.HEIC'']"
proof -
  let ?i = "sys_join b_fails ''/home/user/Photos'' ''b.heic''"
  let ?p = "sys_join b_fails ''/home/user/Photos'' (path_parse_name ''b.heic'' @ ''.jpg'')"
  let ?c = "convert_all b_fails ''/home/user/Photos'' True [''c.HEIC'']
              (\<lparr>converted = 1, failed = 0\<rparr>\<lparr>failed := failed \<lparr>converted = 1, failed = 0\<rparr> + 1\<rparr>) 8"
  have h1: "sys_run b_fails (cmd_direct ?i ?p) 5 = (Exited 1 [] ''no decode delegate'', 6)"
    by code_simp
  have h2: "sys_run b_fails (cmd_format ?i ?p) 6 = (Exited 1 [] ''no decode delegate'', 7)"
    by code_simp
  have h3: "sys_run b_fails (cmd_orient ?i ?p) 7 = (Exited 1 [] ''no decode delegate'', 8)"
    by code_simp
  have h4: "\<not> exited_zero (Exited 1 [] ''no decode delegate'')"
    by simp
  have h5: "execSync_result (cmd_orient ?i ?p) (Exited 1 [] ''no decode delegate'')
              = Throw (''Command failed: '' @ cmd_orient ?i ?p
                       @ char_of (10 :: nat) # ''no decode delegate'')"
    by (simp add: execSync_result_def)
  have h6: "?c = (fst ?c, fst (snd ?c), snd (snd ?c))"
    by simp
  have m1: "fst (main b_fails [''/home/user/Photos'', ''delete''] 0)
       = Returned 3 \<lparr>converted = 2, failed = 1\<rparr>"
    by code_simp
  have m2: "unlinks (snd (snd (main b_fails [''/home/user/Photos'', ''delete''] 0)))
       = [''/home/user/Photos/a.heic'', ''/home/user/Photos/c.HEIC'']"
    by code_simp
  have c: "path_parse_name ''c.HEIC'' = ''c''"
    by (simp add: path_parse_name_def path_base_def)
  from all_strategies_fail_target_failed_run_continues [OF h1 h2 h3 h4 h4 h5 h6] m1 m2
  show ?thesis
    by (simp add: b_fails_def name_b c)
qed

lemma unlinks_member: "Unlink q \<in> set t \<longleftrightarrow> q \<in> set (unlinks t)"
  by (induction t rule: unlinks.induct) auto

text \<open>
  C5. The original is removed, or its removal attempted, exactly when the conversion
  succeeded and \<^verbatim>\<open>deleteOriginals\<close> is set, and nothing else is ever removed; a target
  whose conversion succeeded is counted as converted whatever the removal does, also
  when \<^verbatim>\<open>unlinkSync\<close> throws.
\<close>

theorem original_removed_iff_converted_and_delete_mode:
  fixes S :: "'w sys"
  defines "i \<equiv> \<lambda>d f. sys_join S d f"
      and "p \<equiv> \<lambda>d f. sys_join S d (path_parse_name f @ ''.jpg'')"
  assumes "try_strategies S (i d f) (p d f) w = (r, w1, t1)"
      and "process_file S d del f cnt w = (cnt', w', t)"
  shows "unlinks t = (if is_ok r \<and> del then [i d f] else [])
       \<and> (Unlink (i d f) \<in> set t \<longleftrightarrow> is_ok r \<and> del)
       \<and> (is_ok r \<longrightarrow> cnt' = cnt\<lparr>converted := converted cnt + 1\<rparr>)
       \<and> (is_ok r \<and> del \<and> fst (sys_unlink S (i d f) w1) = Throw m \<longrightarrow>
            cnt' = cnt\<lparr>converted := converted cnt + 1\<rparr>
            \<and> t = [colorLog (''Converting: '' @ f) cyan] @ t1 @
                  [colorLog (''  SUCCESS: Created '' @ path_parse_name f @ ''.jpg'') green,
                   Unlink (i d f),
                   colorLog (''  WARNING: Could not delete original file '' @ f) yellow,
                   colorLog (''  Details: '' @ m) yellow,
                   console_log ''''])"
proof -
  have ts: "try_strategies S (sys_join S d f) (sys_join S d (path_parse_name f @ ''.jpg'')) w
              = (r, w1, t1)"
    using assms(3) by (simp add: i_def p_def)
  have u: "unlinks t = (if is_ok r \<and> del then [i d f] else [])"
    using process_file_unlinks [OF assms(4) ts] by (simp add: i_def)
  have mem: "Unlink (i d f) \<in> set t \<longleftrightarrow> is_ok r \<and> del"
    by (simp add: unlinks_member u)
  have c: "is_ok r \<Longrightarrow> cnt' = cnt\<lparr>converted := converted cnt + 1\<rparr>"
    using process_file_counters [OF assms(4) ts] by simp
  have w: "is_ok r \<Longrightarrow> del \<Longrightarrow> fst (sys_unlink S (i d f) w1) = Throw m \<Longrightarrow>
            t = [colorLog (''Converting: '' @ f) cyan] @ t1 @
                  [colorLog (''  SUCCESS: Created '' @ path_parse_name f @ ''.jpg'') green,
                   Unlink (i d f),
                   colorLog (''  WARNING: Could not delete original file '' @ f) yellow,
                   colorLog (''  Details: '' @ m) yellow,
                   console_log '''']"
    using assms(4)
    by (cases r; cases "sys_unlink S (sys_join S d f) w1")
       (auto simp add: process_file_eq [OF ts] delete_original_def i_def)
  from u mem c w show ?thesis by blast
qed

text \<open>C5 where the conversion succeeds and the removal is refused.\<close>

theorem original_removed_witness:
  "process_file unlink_denied ''/home/user/Photos'' True ''a.heic'' \<lparr>converted = 0, failed = 0\<rparr> 2
     = (\<lparr>converted = 1, failed = 0\<rparr>, 3,
        [colorLog ''Converting: a.heic'' cyan,
         Spawn (cmd_direct ''/home/user/Photos/a.heic'' ''/home/user/Photos/a.jpg''),
         colorLog ''  SUCCESS: Created a.jpg'' green,
         Unlink ''/home/user/Photos/a.heic'',
         colorLog ''  WARNING: Could not delete original file a.heic'' yellow,
         colorLog ''  Details: EPERM: operation not permitted'' yellow,
         console_log ''''])
   \<and> unlinks (snd (snd (process_file unlink_denied ''/home/user/Photos'' False ''a.heic''
                           \<lparr>converted = 0, failed = 0\<rparr> 2))) = []
   \<and> fst (main unlink_denied [''/home/user/Photos'', ''delete''] 0)
       = Returned 1 \<lparr>converted = 1, failed = 0\<rparr>"
proof -
  let ?i = "sys_join unlink_denied ''/home/user/Photos'' ''a.heic''"
  let ?p = "sys_join unlink_denied ''/home/user/Photos'' (path_parse_name ''a.heic'' @ ''.jpg'')"
  let ?pf = "\<lambda>del. process_file unlink_denied ''/home/user/Photos'' del ''a.heic''
                     \<lparr>converted = 0, failed = 0\<rparr> 2"
  have h1: "try_strategies unlink_denied ?i ?p 2 = (Ok (), 3, [Spawn (cmd_direct ?i ?p)])"
    by (simp add: try_strategies_def execSync_def execSync_result_def unlink_denied_def)
  have h2: "?pf del = (fst (?pf del), fst (snd (?pf del)), snd (snd (?pf del)))" for del
    by simp
  have h3: "fst (sys_unlink unlink_denied ?i 3) = Throw ''EPERM: operation not permitted''"
    by (simp add: unlink_denied_def)
  have m: "fst (main unlink_denied [''/home/user/Photos'', ''delete''] 0)
       = Returned 1 \<lparr>converted = 1, failed = 0\<rparr>"
    by code_simp
  have w3: "fst (snd (?pf True)) = 3"
    by code_simp
  from original_removed_iff_converted_and_delete_mode [OF h1 h2 [of True],
         of "''EPERM: operation not permitted''"]
       original_removed_iff_converted_and_delete_mode [OF h1 h2 [of False],
         of "''EPERM: operation not permitted''"]
       h3 m w3 h2 [of True]
  show ?thesis
    by (simp add: unlink_denied_def name_a)
qed

lemma process_file_one_counter:
  assumes "process_file S d del f c0 w0 = (c1, w1, t1)"
  shows "(converted c1 = converted c0 + 1 \<and> failed c1 = failed c0)
       \<or> (converted c1 = converted c0 \<and> failed c1 = failed c0 + 1)"
proof -
  obtain r w t where
    ts: "try_strategies S (sys_join S d f) (sys_join S d (path_parse_name f @ ''.jpg'')) w0
           = (r, w, t)"
    by (cases "try_strategies S (sys_join S d f) (sys_join S d (path_parse_name f @ ''.jpg'')) w0")
       auto
  from process_file_counters [OF assms ts] show ?thesis
    by (cases "is_ok r") simp_all
qed

lemma convert_all_counters:
  "convert_all S d del files cnt w = (cnt', w', t) \<Longrightarrow>
   converted cnt' + failed cnt' = converted cnt + failed cnt + length files"
proof (induction files arbitrary: cnt w cnt' w' t)
  case Nil
  then show ?case by simp
next
  case (Cons f files)
  from Cons.prems obtain cnt1 w1 t1 t2 where
    pf: "process_file S d del f cnt w = (cnt1, w1, t1)" and
    ca: "convert_all S d del files cnt1 w1 = (cnt', w', t2)"
    by (auto split: prod.splits)
  from process_file_one_counter [OF pf]
  have "converted cnt1 + failed cnt1 = converted cnt + failed cnt + 1"
    by auto
  with Cons.IH [OF ca] show ?case by simp
qed

lemma convert_folder_returned:
  assumes "convert_folder S d del w = (Returned n c, w', t)"
  shows "(\<exists>hs t1. find_heic_files S d w = (Ok hs, t1) \<and> n = length hs)
       \<and> converted c + failed c = n"
proof -
  from assms obtain hs t1 t2 where
    f: "find_heic_files S d w = (Ok hs, t1)" and n: "n = length hs" and
    ca: "convert_all S d del hs \<lparr>converted = 0, failed = 0\<rparr> w = (c, w', t2)"
    by (auto simp add: convert_folder_def split: if_splits js_result.splits prod.splits)
  from convert_all_counters [OF ca] f n show ?thesis by simp
qed

lemma main_returned:
  assumes "main S args v = (Returned n c, v', u)"
  shows "\<exists>d del w w' t. convert_folder S d del w = (Returned n c, w', t)"
proof -
  obtain d del t1 where pa: "parse_args S args = (d, del, t1)"
    by (cases "parse_args S args") auto
  obtain r w1 where rn: "sys_run S ''magick -version'' v = (r, w1)"
    by (cases "sys_run S ''magick -version'' v") auto
  obtain w t3 where th: "test_heic_support S w1 = (w, t3)"
    by (cases "test_heic_support S w1") auto
  from main_eq [OF pa rn th] assms have "fst (convert_folder S d del w) = Returned n c"
    by (auto split: if_splits)
  then have "convert_folder S d del w
               = (Returned n c, fst (snd (convert_folder S d del w)),
                  snd (snd (convert_folder S d del w)))"
    by (metis prod.collapse)
  then show ?thesis by blast
qed

text \<open>
  C6. Every target found yields exactly one outcome: each pass of the loop adds one to
  exactly one of the two counters, so the loop adds the number of targets to their sum,
  and when \<^verbatim>\<open>main\<close> returns, \<^verbatim>\<open>converted + failed\<close> is the number of files found.
\<close>

theorem every_target_counted_exactly_once:
  assumes "process_file S d del f c0 w0 = (c1, w1, t1)"
      and "convert_all S d del files cnt w = (cnt', w', t)"
  shows "((converted c1 = converted c0 + 1 \<and> failed c1 = failed c0)
          \<or> (converted c1 = converted c0 \<and> failed c1 = failed c0 + 1))
       \<and> converted cnt' + failed cnt' = converted cnt + failed cnt + length files
       \<and> (\<forall>n c v' u. convert_folder S d del v = (Returned n c, v', u) \<longrightarrow>
            (\<exists>hs u1. find_heic_files S d v = (Ok hs, u1) \<and> n = length hs)
            \<and> converted c + failed c = n)
       \<and> (\<forall>n c v' u. main S args v = (Returned n c, v', u) \<longrightarrow> converted c + failed c = n)"
proof -
  have m: "converted c + failed c = n" if "main S args v = (Returned n c, v', u)" for n c v' u
  proof -
    from main_returned [OF that] obtain d' del' x x' t' where
      "convert_folder S d' del' x = (Returned n c, x', t')" by blast
    from convert_folder_returned [OF this] show ?thesis by simp
  qed
  have a: "(converted c1 = converted c0 + 1 \<and> failed c1 = failed c0)
          \<or> (converted c1 = converted c0 \<and> failed c1 = failed c0 + 1)"
    by (rule process_file_one_counter [OF assms(1)])
  have b: "converted cnt' + failed cnt' = converted cnt + failed cnt + length files"
    by (rule convert_all_counters [OF assms(2)])
  have c: "\<forall>n c v' u. convert_folder S d del v = (Returned n c, v', u) \<longrightarrow>
            (\<exists>hs u1. find_heic_files S d v = (Ok hs, u1) \<and> n = length hs)
            \<and> converted c + failed c = n"
    by (intro allI impI) (rule convert_folder_returned)
  have d: "\<forall>n c v' u. main S args v = (Returned n c, v', u) \<longrightarrow> converted c + failed c = n"
    using m by blast
  show ?thesis
    by (rule conjI [OF a conjI [OF b conjI [OF c d]]])
qed

text \<open>C6 on the run in which \<open>b.heic\<close> fails: two converted, one failed, three found.\<close>

theorem every_target_counted_witness:
  "fst (process_file b_fails ''/home/user/Photos'' False ''b.heic'' \<lparr>converted = 1, failed = 0\<rparr> 5)
     = \<lparr>converted = 1, failed = 1\<rparr>
   \<and> fst (main b_fails [''/home/user/Photos''] 0) = Returned 3 \<lparr>converted = 2, failed = 1\<rparr>
   \<and> converted \<lparr>converted = 2, failed = 1\<rparr> + failed \<lparr>converted = 2, failed = 1\<rparr> = 3"
proof -
  let ?pf = "process_file b_fails ''/home/user/Photos'' False ''b.heic''
               \<lparr>converted = 1, failed = 0\<rparr> 5"
  let ?ca = "convert_all b_fails ''/home/user/Photos'' False [''a.heic'', ''b.heic'', ''c.HEIC'']
               \<lparr>converted = 0, failed = 0\<rparr> 2"
  let ?m = "main b_fails [''/home/user/Photos''] 0"
  have h1: "?pf = (fst ?pf, fst (snd ?pf), snd (snd ?pf))" by simp
  have h2: "?ca = (fst ?ca, fst (snd ?ca), snd (snd ?ca))" by simp
  have p: "fst ?pf = \<lparr>converted = 1, failed = 1\<rparr>" by code_simp
  have m1: "fst ?m = Returned 3 \<lparr>converted = 2, failed = 1\<rparr>" by code_simp
  then have m: "?m = (Returned 3 \<lparr>converted = 2, failed = 1\<rparr>, fst (snd ?m), snd (snd ?m))"
    by (metis prod.collapse)
  have "converted \<lparr>converted = 2, failed = 1\<rparr> + failed \<lparr>converted = 2, failed = 1\<rparr> = 3"
    using every_target_counted_exactly_once [OF h1 h2, of 0 "[''/home/user/Photos'']"] m
    by blast
  with p m1 show ?thesis by blast
qed



























lemma spawns_calls [simp]: "spawns (calls t) = spawns t"
  by (induction t rule: calls.induct) simp_all

lemma unlinks_calls [simp]: "unlinks (calls t) = unlinks t"
  by (induction t rule: calls.induct) simp_all

lemma filter_heic_calls:
  "filter_heic S d files w = (r, t) \<Longrightarrow> calls t = t \<and> spawns t = [] \<and> unlinks t = []"
proof (induction files arbitrary: r t)
  case Nil
  then show ?case by simp
next
  case (Cons f files)
  then show ?case
    by (auto split: if_splits js_result.splits prod.splits)
qed

lemma find_heic_files_calls:
  "find_heic_files S d w = (r, t) \<Longrightarrow> calls t = t \<and> spawns t = [] \<and> unlinks t = []"
  by (auto simp add: find_heic_files_def dest: filter_heic_calls
        split: js_result.splits prod.splits)

lemma red_not_other:
  "colorLog m red \<noteq> colorLog m' cyan" "colorLog m red \<noteq> colorLog m' yellow"
  "colorLog m red \<noteq> colorLog m' green" "colorLog m red \<noteq> colorLog m' (bright @ green)"
  "colorLog m red \<noteq> console_log ''''"
  "colorLog m red \<noteq> Spawn c" "colorLog m red \<noteq> Exists q"
  "colorLog m red \<noteq> Lstat q" "colorLog m red \<noteq> Readdir q"
  by (simp_all add: colorLog_def console_log_def bright_def green_def cyan_def red_def yellow_def)

lemma parse_args_no_error: "parse_args S args = (d, del, t) \<Longrightarrow> colorLog m red \<notin> set t"
  by (auto simp add: parse_args_def Let_def red_not_other split: if_splits)

lemma test_heic_support_no_error:
  "test_heic_support S w = (w', t) \<Longrightarrow> colorLog m red \<notin> set t"
  by (auto simp add: test_heic_support_def execSync_def red_not_other
        split: prod.splits js_result.splits if_splits)

lemma find_heic_files_no_error:
  assumes "find_heic_files S d w = (r, t)"
  shows "colorLog m red \<notin> set t"
proof
  assume "colorLog m red \<in> set t"
  then have "colorLog m red \<in> set (calls t)"
    using find_heic_files_calls [OF assms] by simp
  then show False
    by (induction t rule: calls.induct) (auto simp add: colorLog_def)
qed

text \<open>
  C8. When the tool answers and the directory is there, can be read and holds no
  candidate, the run ends with \<^verbatim>\<open>process.exit(0)\<close>: nothing was converted, nothing
  failed, nothing was removed, no error line was printed, and the last line says that no
  HEIC files were found.
\<close>

theorem zero_candidates_is_a_normal_exit:
  assumes "parse_args S args = (d, del, t1)"
      and "sys_run S ''magick -version'' w = (r, w1)"
      and "exited_zero r"
      and "sys_run S ''magick -list format'' w1 = (r', w2)"
      and "sys_exists S d w2"
      and "sys_lstat S d w2 = Ok IsDirectory"
      and "find_heic_files S d w2 = (Ok [], tf)"
      and "main S args w = (e, w', t)"
  shows "e = ProcessExit 0 \<and> exit_status e = 0
       \<and> spawns t = [''magick -version'', ''magick -list format'']
       \<and> unlinks t = []
       \<and> calls t = [Spawn ''magick -version'', Spawn ''magick -list format'',
                    Exists d, Lstat d] @ tf
       \<and> (\<forall>m. colorLog m red \<notin> set t)
       \<and> last t = colorLog ''No HEIC files found in target directory'' yellow"
proof -
  obtain w3 t3 where th: "test_heic_support S w1 = (w3, t3)"
    by (cases "test_heic_support S w1") auto
  from test_heic_support_calls [OF assms(4) th]
  have w3: "w3 = w2" and c3: "calls t3 = [Spawn ''magick -list format'']" by simp_all
  have cf: "convert_folder S d del w2 =
              (ProcessExit 0, w2,
               [Exists d, Lstat d] @ tf @
               [colorLog ''No HEIC files found in target directory'' yellow])"
    using assms(5) assms(6) assms(7) by (simp add: convert_folder_def)
  from main_eq [OF assms(1) assms(2) th] assms(3) assms(8) cf w3
  have e: "e = ProcessExit 0" and
    t: "t = [colorLog ''HEIC to JPEG Converter (Node.js)'' (bright @ green),
             colorLog ''===================================='' (bright @ green),
             console_log ''''] @ t1 @ [console_log ''''] @ [Spawn ''magick -version''] @ t3
            @ [Exists d, Lstat d] @ tf @
              [colorLog ''No HEIC files found in target directory'' yellow]"
    by simp_all
  note fc = find_heic_files_calls [OF assms(7)]
  have c: "calls t = [Spawn ''magick -version'', Spawn ''magick -list format'',
                     Exists d, Lstat d] @ tf"
    using parse_args_calls [OF assms(1)] c3 fc by (simp add: t)
  have s: "spawns t = [''magick -version'', ''magick -list format'']"
    using fc arg_cong [OF c, of spawns] by simp
  have u: "unlinks t = []"
    using fc arg_cong [OF c, of unlinks] by simp
  have n: "colorLog m red \<notin> set t" for m
    using parse_args_no_error [OF assms(1)] test_heic_support_no_error [OF th]
          find_heic_files_no_error [OF assms(7)]
    by (simp add: t red_not_other)
  have l: "last t = colorLog ''No HEIC files found in target directory'' yellow"
    by (simp add: t)
  from e c s u n l show ?thesis by simp
qed

text \<open>C8 on a directory that holds only \<open>notes.txt\<close>.\<close>

theorem zero_candidates_witness:
  "fst (main only_notes [''/home/user/Photos''] 0) = ProcessExit 0
   \<and> spawns (snd (snd (main only_notes [''/home/user/Photos''] 0)))
       = [''magick -version'', ''magick -list format'']
   \<and> unlinks (snd (snd (main only_notes [''/home/user/Photos''] 0))) = []
   \<and> calls (snd (snd (main only_notes [''/home/user/Photos''] 0)))
       = [Spawn ''magick -version'', Spawn ''magick -list format'',
          Exists ''/home/user/Photos'', Lstat ''/home/user/Photos'',
          Readdir ''/home/user/Photos'']"
proof -
  let ?m = "main only_notes [''/home/user/Photos''] 0"
  have h1: "parse_args only_notes [''/home/user/Photos'']
            = (''/home/user/Photos'', False,
               snd (snd (parse_args only_notes [''/home/user/Photos''])))"
    by (simp add: parse_args_def Let_def only_notes_def toLowerCase_def lower_char_def)
  have h2: "sys_run only_notes ''magick -version'' 0 = (Exited 0 ''HEIC* rw+'' [], 1)"
    by (simp add: only_notes_def)
  have h3: "exited_zero (Exited 0 ''HEIC* rw+'' [])"
    by simp
  have h4: "sys_run only_notes ''magick -list format'' 1 = (Exited 0 ''HEIC* rw+'' [], 2)"
    by (simp add: only_notes_def)
  have h5: "sys_exists only_notes ''/home/user/Photos'' 2"
    by (simp add: only_notes_def)
  have h6: "sys_lstat only_notes ''/home/user/Photos'' 2 = Ok IsDirectory"
    by (simp add: only_notes_def)
  have h7: "find_heic_files only_notes ''/home/user/Photos'' 2
              = (Ok [], [Readdir ''/home/user/Photos''])"
    by code_simp
  have h8: "?m = (fst ?m, fst (snd ?m), snd (snd ?m))"
    by simp
  from zero_candidates_is_a_normal_exit [OF h1 h2 h3 h4 h5 h6 h7 h8]
  show ?thesis by simp
qed

lemma lower_heic_shape:
  assumes "toLowerCase ext = ''.heic''"
  shows "\<exists>rest. ext = CHR ''.'' # rest \<and> CHR ''.'' \<notin> set rest \<and> length rest = 4"
proof -
  from assms obtain c rest where e: "ext = c # rest" and c: "lower_char c = CHR ''.''"
    and r: "map lower_char rest = ''heic''"
    by (auto simp add: toLowerCase_def map_eq_Cons_conv)
  have c': "c = CHR ''.''" using c by (simp add: lower_char_dot)
  have n: "CHR ''.'' \<notin> set rest"
  proof
    assume "CHR ''.'' \<in> set rest"
    then have "lower_char (CHR ''.'') \<in> set (map lower_char rest)" by (simp del: r)
    then show False by (simp add: r lower_char_dot [THEN iffD2])
  qed
  have "length (map lower_char rest) = 4" by (simp only: r) simp
  then have "length rest = 4" by simp
  with e c' n show ?thesis by blast
qed

lemma path_base_plain:
  assumes "CHR ''/'' \<notin> set f"
  shows "path_base f = f"
proof -
  have 1: "dropWhile (\<lambda>c. c = CHR ''/'') (rev f) = rev f"
    using assms by (cases "rev f") auto
  have 2: "takeWhile (\<lambda>c. c \<noteq> CHR ''/'') (rev f) = rev f"
    using assms by (auto simp add: takeWhile_eq_all_conv)
  show ?thesis by (simp add: path_base_def 1 2)
qed

lemma path_parse_name_heic:
  assumes "stem \<noteq> []" and "CHR ''/'' \<notin> set (stem @ ext)" and "toLowerCase ext = ''.heic''"
  shows "path_parse_name (stem @ ext) = stem"
proof -
  from lower_heic_shape [OF assms(3)] obtain rest where
    e: "ext = CHR ''.'' # rest" and n: "CHR ''.'' \<notin> set rest" and l: "length rest = 4"
    by blast
  let ?b = "stem @ CHR ''.'' # rest"
  have b: "path_base (stem @ ext) = ?b"
    using path_base_plain [OF assms(2)] e by simp
  have tw: "takeWhile (\<lambda>c. c \<noteq> CHR ''.'') (rev rest @ CHR ''.'' # rev stem) = rev rest"
    using n by (auto simp add: takeWhile_tail takeWhile_eq_all_conv)
  have "length ?b \<noteq> length ''..''"
    using l by simp
  then have ne: "?b \<noteq> ''..''"
    by metis
  show ?thesis
    using assms(1) ne by (simp add: path_parse_name_def b tw Let_def)
qed

lemma try_strategies_calls:
  "try_strategies S i p w = (r, w', t) \<Longrightarrow>
   calls t \<noteq> [] \<and> hd (calls t) = Spawn (cmd_direct i p)
   \<and> set (calls t) \<subseteq> {Spawn (cmd_direct i p), Spawn (cmd_format i p), Spawn (cmd_orient i p)}"
  by (auto simp add: try_strategies_def execSync_def split: prod.splits js_result.splits)

lemma delete_original_calls: "calls (snd (delete_original S i f w)) = [Unlink i]"
  by (simp add: delete_original_def split: prod.splits js_result.splits)

lemma execSync_ignores_queries:
  "execSync (S\<lparr>sys_exists := ex, sys_lstat := ls, sys_readdir := rd\<rparr>) cmd w = execSync S cmd w"
  by (simp add: execSync_def)

lemma try_strategies_ignores_queries:
  "try_strategies (S\<lparr>sys_exists := ex, sys_lstat := ls, sys_readdir := rd\<rparr>) i p w
     = try_strategies S i p w"
  by (simp add: try_strategies_def execSync_ignores_queries
        cong: prod.case_cong js_result.case_cong)

lemma delete_original_ignores_queries:
  "delete_original (S\<lparr>sys_exists := ex, sys_lstat := ls, sys_readdir := rd\<rparr>) i f w
     = delete_original S i f w"
  by (simp add: delete_original_def)

text \<open>
  The output path of a step is the target folder joined with the base name of the file
  and \<^verbatim>\<open>.jpg\<close>; for a candidate \<open>stem.heic\<close> with a stem the base name is \<open>stem\<close>.
  The first command is started on that path without any question to the file system:
  what the step does is the same whatever \<^verbatim>\<open>existsSync\<close>, \<^verbatim>\<open>lstatSync\<close> and
  \<^verbatim>\<open>readdirSync\<close> would answer, for the output path as for any other, and all it does
  is start commands that write to the output path and remove the original.
\<close>

theorem output_path_same_folder_same_base_no_check:
  fixes S :: "'w sys"
  defines "i \<equiv> \<lambda>d f. sys_join S d f"
      and "p \<equiv> \<lambda>d f. sys_join S d (path_parse_name f @ ''.jpg'')"
  assumes "process_file S d del f cnt w = (cnt', w', t)"
  shows "hd (calls t) = Spawn (cmd_direct (i d f) (p d f))
       \<and> set (calls t) \<subseteq> {Spawn (cmd_direct (i d f) (p d f)), Spawn (cmd_format (i d f) (p d f)),
                          Spawn (cmd_orient (i d f) (p d f)), Unlink (i d f)}
       \<and> process_file (S\<lparr>sys_exists := ex, sys_lstat := ls, sys_readdir := rd\<rparr>) d del f cnt w
           = process_file S d del f cnt w
       \<and> (stem \<noteq> [] \<and> CHR ''/'' \<notin> set (stem @ ext) \<and> toLowerCase ext = ''.heic'' \<longrightarrow>
            path_parse_name (stem @ ext) = stem
            \<and> p d (stem @ ext) = sys_join S d (stem @ ''.jpg''))"
proof -
  obtain r w1 t1 where
    ts: "try_strategies S (sys_join S d f) (sys_join S d (path_parse_name f @ ''.jpg'')) w
           = (r, w1, t1)"
    by (cases "try_strategies S (sys_join S d f) (sys_join S d (path_parse_name f @ ''.jpg'')) w")
       auto
  note tc = try_strategies_calls [OF ts]
  have t: "calls t = calls t1 @ (if is_ok r \<and> del then [Unlink (sys_join S d f)] else [])"
    using assms(3)
    by (cases r) (auto simp add: process_file_eq [OF ts] delete_original_calls)
  have a: "hd (calls t) = Spawn (cmd_direct (i d f) (p d f))"
    using tc t by (simp add: i_def p_def)
  have b: "set (calls t) \<subseteq> {Spawn (cmd_direct (i d f) (p d f)), Spawn (cmd_format (i d f) (p d f)),
                          Spawn (cmd_orient (i d f) (p d f)), Unlink (i d f)}"
    using tc t by (auto simp add: i_def p_def)
  have c: "process_file (S\<lparr>sys_exists := ex, sys_lstat := ls, sys_readdir := rd\<rparr>) d del f cnt w
           = process_file S d del f cnt w"
    by (simp add: process_file_def try_strategies_ignores_queries
          delete_original_ignores_queries cong: prod.case_cong js_result.case_cong if_cong)
  have d: "stem \<noteq> [] \<Longrightarrow> CHR ''/'' \<notin> set (stem @ ext) \<Longrightarrow> toLowerCase ext = ''.heic'' \<Longrightarrow>
            path_parse_name (stem @ ext) = stem
            \<and> p d (stem @ ext) = sys_join S d (stem @ ''.jpg'')"
    using path_parse_name_heic [of stem ext] by (simp add: p_def)
  from a b c d show ?thesis by blast
qed

text \<open>The step on \<open>c.HEIC\<close> in delete mode.\<close>

theorem output_path_witness:
  "calls (snd (snd (process_file all_ok ''/home/user/Photos'' True ''c.HEIC''
                      \<lparr>converted = 2, failed = 0\<rparr> 4)))
     = [Spawn (cmd_direct ''/home/user/Photos/c.HEIC'' ''/home/user/Photos/c.jpg''),
        Unlink ''/home/user/Photos/c.HEIC'']
   \<and> path_parse_name (''c'' @ ''.HEIC'') = ''c''
   \<and> sys_join all_ok ''/home/user/Photos'' (path_parse_name (''c'' @ ''.HEIC'') @ ''.jpg'')
       = ''/home/user/Photos/c.jpg''"
proof -
  let ?pf = "process_file all_ok ''/home/user/Photos'' True ''c.HEIC''
               \<lparr>converted = 2, failed = 0\<rparr> 4"
  have h: "?pf = (fst ?pf, fst (snd ?pf), snd (snd ?pf))" by simp
  have c: "calls (snd (snd ?pf))
     = [Spawn (cmd_direct ''/home/user/Photos/c.HEIC'' ''/home/user/Photos/c.jpg''),
        Unlink ''/home/user/Photos/c.HEIC'']"
    by code_simp
  have l: "toLowerCase ''.HEIC'' = ''.heic''" by code_simp
  have s: "CHR ''/'' \<notin> set (''c'' @ ''.HEIC'')" by simp
  have n: "''c'' \<noteq> []" by simp
  have "path_parse_name (''c'' @ ''.HEIC'') = ''c''
        \<and> sys_join all_ok ''/home/user/Photos'' (path_parse_name (''c'' @ ''.HEIC'') @ ''.jpg'')
            = sys_join all_ok ''/home/user/Photos'' (''c'' @ ''.jpg'')"
    using output_path_same_folder_same_base_no_check
            [OF h, where stem = "''c''" and ext = "''.HEIC''" and ex = "sys_exists all_ok"
               and ls = "sys_lstat all_ok" and rd = "sys_readdir all_ok"] n l s
    by blast
  then have "path_parse_name (''c'' @ ''.HEIC'') = ''c''
        \<and> sys_join all_ok ''/home/user/Photos'' (path_parse_name (''c'' @ ''.HEIC'') @ ''.jpg'')
            = ''/home/user/Photos/c.jpg''"
    by (simp add: all_ok_def)
  with c show ?thesis by blast
qed

text \<open>
  A file whose whole name is \<^verbatim>\<open>.heic\<close> is a candidate, since its name ends in
  \<^verbatim>\<open>.heic\<close>; \<^verbatim>\<open>path.parse\<close> takes such a name as a base name without extension,
  so its output is \<^verbatim>\<open>.heic.jpg\<close>.
\<close>

lemma dotfile_is_selected:
  "endsWith (toLowerCase ''.heic'') ''.heic'' \<and> spec_extension ''.heic'' = ''.heic''"
  by code_simp

lemma dotfile_base_name: "path_parse_name ''.heic'' @ ''.jpg'' = ''.heic.jpg''"
  by code_simp

text \<open>
  C9. The output path is to be the folder of the target, its base name and the
  extension \<^verbatim>\<open>.jpg\<close>. For the candidate whose whole name is \<^verbatim>\<open>.heic\<close> the script
  does not compute that: the file is selected, its extension is \<^verbatim>\<open>.heic\<close>, and the
  command it starts writes to \<^verbatim>\<open>.heic.jpg\<close>, the whole source name with \<^verbatim>\<open>.jpg\<close>
  added, where the name without its extension, which the sketch computes at its line
  224, gives \<^verbatim>\<open>.jpg\<close>.
\<close>

theorem dotfile_output_keeps_source_extension:
  "find_heic_files dotfile_dir ''/home/user/Photos'' 2
     = (Ok [''.heic''], [Readdir ''/home/user/Photos'', Lstat ''/home/user/Photos/.heic''])
   \<and> spec_extension ''.heic'' = ''.heic''
   \<and> fst (main dotfile_dir [''/home/user/Photos''] 0) = Returned 1 \<lparr>converted = 1, failed = 0\<rparr>
   \<and> spawns (snd (snd (main dotfile_dir [''/home/user/Photos''] 0)))
       = [''magick -version'', ''magick -list format'',
          cmd_direct ''/home/user/Photos/.heic'' ''/home/user/Photos/.heic.jpg'']"
  by code_simp

lemma main_depends_on_parse_args:
  "parse_args S a = parse_args S b \<Longrightarrow> main S a w = main S b w"
  by (simp add: main_def)

lemma parse_args_two:
  "parse_args S [d, x] =
     (sys_resolve S d, toLowerCase x = ''delete'',
      [colorLog (''Using specified directory: '' @ sys_resolve S d) cyan,
       if toLowerCase x = ''delete''
       then colorLog ''Delete mode: Original HEIC files will be deleted after successful conversion'' yellow
       else colorLog ''Preserve mode: Original HEIC files will be kept'' cyan])"
  by (simp add: parse_args_def Let_def)

lemma parse_args_one:
  "toLowerCase d \<noteq> ''delete'' \<Longrightarrow>
   parse_args S [d] =
     (sys_resolve S d, False,
      [colorLog (''Using specified directory: '' @ sys_resolve S d) cyan,
       colorLog ''Preserve mode: Original HEIC files will be kept'' cyan])"
  by (simp add: parse_args_def Let_def)

text \<open>
  C10. With two arguments the second is compared with \<^verbatim>\<open>delete\<close> after lower-casing,
  so \<^verbatim>\<open>DELETE\<close> turns delete mode on; any other second argument is ignored: the
  directory is the first argument, the mode is preserve, the two lines printed are the
  informational ones, and the whole run is the run with the first argument alone.
\<close>

theorem second_argument_is_delete_in_any_case_or_ignored:
  "parse_args S [d, x] =
     (sys_resolve S d, toLowerCase x = ''delete'',
      [colorLog (''Using specified directory: '' @ sys_resolve S d) cyan,
       if toLowerCase x = ''delete''
       then colorLog ''Delete mode: Original HEIC files will be deleted after successful conversion'' yellow
       else colorLog ''Preserve mode: Original HEIC files will be kept'' cyan])
   \<and> parse_args S [d, ''DELETE''] = parse_args S [d, ''delete'']
   \<and> fst (snd (parse_args S [d, ''DELETE'']))
   \<and> (toLowerCase x \<noteq> ''delete'' \<longrightarrow>
        parse_args S [d, x] =
          (sys_resolve S d, False,
           [colorLog (''Using specified directory: '' @ sys_resolve S d) cyan,
            colorLog ''Preserve mode: Original HEIC files will be kept'' cyan])
        \<and> (toLowerCase d \<noteq> ''delete'' \<longrightarrow> main S [d, x] w = main S [d] w))"
proof -
  have l: "toLowerCase ''DELETE'' = ''delete''" "toLowerCase ''delete'' = ''delete''"
    by (simp_all add: toLowerCase_def lower_char_def char_of_eq_iff)
  have a: "parse_args S [d, ''DELETE''] = parse_args S [d, ''delete'']"
    by (simp only: parse_args_two l)
  have b: "fst (snd (parse_args S [d, ''DELETE'']))"
    by (simp only: parse_args_two l) simp
  have c: "toLowerCase x \<noteq> ''delete'' \<Longrightarrow>
        parse_args S [d, x] =
          (sys_resolve S d, False,
           [colorLog (''Using specified directory: '' @ sys_resolve S d) cyan,
            colorLog ''Preserve mode: Original HEIC files will be kept'' cyan])"
    by (simp add: parse_args_two)
  have e: "toLowerCase x \<noteq> ''delete'' \<Longrightarrow> toLowerCase d \<noteq> ''delete'' \<Longrightarrow>
        main S [d, x] w = main S [d] w"
    by (rule main_depends_on_parse_args) (simp add: c parse_args_one)
  from parse_args_two [of S d x] a b c e show ?thesis by blast
qed

text \<open>C10 with \<open>keep\<close> as second argument.\<close>

theorem second_argument_witness:
  "parse_args all_ok [''/home/user/Photos'', ''keep'']
     = (''/home/user/Photos'', False,
        [colorLog ''Using specified directory: /home/user/Photos'' cyan,
         colorLog ''Preserve mode: Original HEIC files will be kept'' cyan])
   \<and> main all_ok [''/home/user/Photos'', ''keep''] 0 = main all_ok [''/home/user/Photos''] 0"
proof -
  have x: "toLowerCase ''keep'' \<noteq> ''delete''"
    by (simp add: toLowerCase_def lower_char_def)
  have d: "toLowerCase ''/home/user/Photos'' \<noteq> ''delete''"
    by (simp add: toLowerCase_def lower_char_def)
  from second_argument_is_delete_in_any_case_or_ignored
         [of all_ok "''/home/user/Photos''" "''keep''" 0] x d
  have "parse_args all_ok [''/home/user/Photos'', ''keep'']
          = (sys_resolve all_ok ''/home/user/Photos'', False,
             [colorLog (''Using specified directory: '' @ sys_resolve all_ok ''/home/user/Photos'') cyan,
              colorLog ''Preserve mode: Original HEIC files will be kept'' cyan])
        \<and> main all_ok [''/home/user/Photos'', ''keep''] 0 = main all_ok [''/home/user/Photos''] 0"
    by blast
  then show ?thesis by (simp add: all_ok_def)
qed

end
